theory Spec2Isabelle
  imports Complex_Main "HOL-Library.Word" "HOL-Library.Multiset"
begin

section \<open>Strings\<close>

text \<open>
  A JavaScript string is a sequence of UTF-16 code units. The question texts of the quiz
  are Cyrillic, so the code units are kept as 16-bit words rather than bytes.
\<close>

type_synonym jsstring = "16 word list"

text \<open>
  \<^verbatim>\<open>String.prototype.trim\<close> removes the leading and the trailing run of code units that
  are WhiteSpace or LineTerminator in ECMAScript: U+0009 to U+000D, U+0020, U+00A0,
  U+1680, U+2000 to U+200A, U+2028, U+2029, U+202F, U+205F, U+3000 and U+FEFF.
\<close>

definition isWhiteSpace :: "16 word \<Rightarrow> bool" where
  "isWhiteSpace c \<longleftrightarrow>
     List.member
       [0x0009, 0x000A, 0x000B, 0x000C, 0x000D, 0x0020, 0x00A0, 0x1680,
        0x2000, 0x2001, 0x2002, 0x2003, 0x2004, 0x2005, 0x2006, 0x2007,
        0x2008, 0x2009, 0x200A, 0x2028, 0x2029, 0x202F, 0x205F, 0x3000, 0xFEFF] c"

definition trim :: "jsstring \<Rightarrow> jsstring" where
  "trim s = rev (dropWhile isWhiteSpace (rev (dropWhile isWhiteSpace s)))"

section \<open>Questions and their normalisation\<close>

text \<open>
  \<^verbatim>\<open>type QuestionOption = { text: string; right?: boolean }\<close> and
  \<^verbatim>\<open>type Question = { question: string; options: QuestionOption[] }\<close>.
  The records come from parsed JSON and \<^verbatim>\<open>normalizeQuestions\<close> reads every field but
  \<^verbatim>\<open>right\<close> through \<^verbatim>\<open>?.\<close> and \<^verbatim>\<open>??\<close>, so each field may be absent: \<open>None\<close> is
  JavaScript's \<^verbatim>\<open>undefined\<close>. The field \<^verbatim>\<open>text\<close> is named \<open>text'\<close> here.
\<close>

record QuestionOption =
  text' :: "jsstring option"
  right :: "bool option"

record Question =
  question :: "jsstring option"
  options :: "QuestionOption list option"

text \<open>
  \<^verbatim>\<open>
  const normalizeQuestions = (raw: Question[]): Question[] =>
    raw
      .map((entry) => ({
        question: entry.question?.trim() ?? "",
        options:
          entry.options?.map((option) => ({
            text: option.text?.trim() ?? "",
            right: option.right
          })) ?? []
      }))
      .filter((entry) => entry.question && entry.options.length === 4);
  \<close>
  \<open>trimOrEmpty\<close> is the expression \<^verbatim>\<open>x?.trim() ?? ""\<close>. In the filter, a string is
  truthy when it is not empty; the entries the filter sees come out of the map, where both
  fields are present.
\<close>

definition trimOrEmpty :: "jsstring option \<Rightarrow> jsstring" where
  "trimOrEmpty x = (case x of None \<Rightarrow> [] | Some s \<Rightarrow> trim s)"

definition normalizeOption :: "QuestionOption \<Rightarrow> QuestionOption" where
  "normalizeOption option = \<lparr>text' = Some (trimOrEmpty (text' option)), right = right option\<rparr>"

definition normalizeEntry :: "Question \<Rightarrow> Question" where
  "normalizeEntry entry =
     \<lparr>question = Some (trimOrEmpty (question entry)),
      options = Some (case options entry of
                        None \<Rightarrow> []
                      | Some os \<Rightarrow> map normalizeOption os)\<rparr>"

definition keepEntry :: "Question \<Rightarrow> bool" where
  "keepEntry entry \<longleftrightarrow>
     (case question entry of None \<Rightarrow> False | Some q \<Rightarrow> q \<noteq> []) \<and>
     (case options entry of None \<Rightarrow> False | Some os \<Rightarrow> length os = 4)"

definition normalizeQuestions :: "Question list \<Rightarrow> Question list" where
  "normalizeQuestions raw = filter keepEntry (map normalizeEntry raw)"

subsection \<open>The normaliser as the specification words it\<close>

text \<open>
  The specification describes the normaliser record by record: the prompt of a record is its
  \<^verbatim>\<open>question\<close> field, a missing options field is the empty list, a record is valid when its
  trimmed prompt is not empty and it has exactly four options, and a valid record is kept
  with its prompt and every option's text trimmed, the options in their order.
\<close>

definition spec_prompt :: "Question \<Rightarrow> jsstring" where
  "spec_prompt e = (case question e of None \<Rightarrow> [] | Some q \<Rightarrow> q)"

definition spec_options :: "Question \<Rightarrow> QuestionOption list" where
  "spec_options e = (case options e of None \<Rightarrow> [] | Some os \<Rightarrow> os)"

definition spec_text :: "QuestionOption \<Rightarrow> jsstring" where
  "spec_text option = (case text' option of None \<Rightarrow> [] | Some t \<Rightarrow> t)"

definition spec_valid :: "Question \<Rightarrow> bool" where
  "spec_valid e \<longleftrightarrow> trim (spec_prompt e) \<noteq> [] \<and> length (spec_options e) = 4"

definition spec_trimmed :: "Question \<Rightarrow> Question" where
  "spec_trimmed e =
     \<lparr>question = Some (trim (spec_prompt e)),
      options = Some (map (\<lambda>option. \<lparr>text' = Some (trim (spec_text option)), right = right option\<rparr>)
                          (spec_options e))\<rparr>"

section \<open>Random draws\<close>

text \<open>
  \<^verbatim>\<open>Math.random()\<close> returns a number \<open>u\<close> with \<open>0 \<le> u < 1\<close>. The generator is a tape of
  draws, read at its head and passed on without it. The contract of \<^verbatim>\<open>Math.random\<close> is the
  predicate \<open>unit_draws\<close>, a hypothesis wherever a property depends on it. A draw is a
  rational and the product \<open>u * n\<close> is exact; JavaScript rounds the product to a double, and
  the properties below use no more of the index than that it is below \<open>n\<close>.
\<close>

type_synonym rng = "nat \<Rightarrow> rat"

definition unit_draws :: "rng \<Rightarrow> bool" where
  "unit_draws g \<longleftrightarrow> (\<forall>k. 0 \<le> g k \<and> g k < 1)"

text \<open>\<^verbatim>\<open>Math.floor(Math.random() * n)\<close>, with the generator that remains.\<close>

definition randomIndex :: "rng \<Rightarrow> nat \<Rightarrow> nat \<times> rng" where
  "randomIndex g n = (nat \<lfloor>g 0 * of_nat n\<rfloor>, \<lambda>k. g (Suc k))"

text \<open>
  Reading \<^verbatim>\<open>xs[k]\<close>: out of range JavaScript yields \<^verbatim>\<open>undefined\<close>, here \<open>None\<close>.
\<close>

definition item_at :: "'a list \<Rightarrow> nat \<Rightarrow> 'a option" where
  "item_at xs k = (if k < length xs then Some (xs ! k) else None)"

section \<open>Shuffling\<close>

text \<open>
  \<^verbatim>\<open>
  const shuffle = <T,>(items: T[]): T[] => {
    const result = [...items];
    for (let i = result.length - 1; i > 0; i -= 1) {
      const j = Math.floor(Math.random() * (i + 1));
      [result[i], result[j]] = [result[j], result[i]];
    }
    return result;
  };
  \<close>
  The destructuring assignment reads \<^verbatim>\<open>result[j]\<close> and \<^verbatim>\<open>result[i]\<close> first and then
  writes position \<open>i\<close> and position \<open>j\<close>, in that order. The loop counter starts at
  \<open>length - 1\<close>; for the empty array that is \<open>-1\<close> in JavaScript and \<open>0\<close> here, and in both
  the body does not run. Under \<open>unit_draws\<close> the index \<open>j\<close> is at most \<open>i\<close>
  (lemma \<open>randomIndex_less\<close>), so every read and write of the loop is in range.
\<close>

definition swap :: "'a list \<Rightarrow> nat \<Rightarrow> nat \<Rightarrow> 'a list" where
  "swap result i j = (let a = result ! j; b = result ! i in (result[i := a])[j := b])"

fun shuffle_loop :: "nat \<Rightarrow> 'a list \<Rightarrow> rng \<Rightarrow> 'a list \<times> rng" where
  "shuffle_loop 0 result g = (result, g)"
| "shuffle_loop (Suc n) result g =
     (case randomIndex g (Suc n + 1) of
        (j, g') \<Rightarrow> shuffle_loop n (swap result (Suc n) j) g')"

definition shuffle :: "'a list \<Rightarrow> rng \<Rightarrow> 'a list \<times> rng" where
  "shuffle items g = shuffle_loop (length items - 1) items g"

subsection \<open>The same function over a store of arrays\<close>

text \<open>
  Whether \<^verbatim>\<open>shuffle\<close> changes its argument is a question about array identity, so here
  arrays live in a store and are named by references (positions in the store).
  \<^verbatim>\<open>[...items]\<close> allocates a new array holding the elements of \<^verbatim>\<open>items\<close>; each
  assignment of the loop writes the store at the reference \<^verbatim>\<open>result\<close>.
\<close>

type_synonym 'a store = "'a list list"

definition spread :: "'a store \<Rightarrow> nat \<Rightarrow> nat \<times> 'a store" where
  "spread st items = (length st, st @ [st ! items])"

fun shuffle_loop_st :: "nat \<Rightarrow> nat \<Rightarrow> 'a store \<Rightarrow> rng \<Rightarrow> 'a store \<times> rng" where
  "shuffle_loop_st 0 result st g = (st, g)"
| "shuffle_loop_st (Suc n) result st g =
     (case randomIndex g (Suc n + 1) of
        (j, g') \<Rightarrow> shuffle_loop_st n result (st[result := swap (st ! result) (Suc n) j]) g')"

definition shuffle_st :: "nat \<Rightarrow> 'a store \<Rightarrow> rng \<Rightarrow> nat \<times> 'a store \<times> rng" where
  "shuffle_st items st g =
     (case spread st items of
        (result, st1) \<Rightarrow>
          (case shuffle_loop_st (length (st1 ! result) - 1) result st1 g of
             (st2, g') \<Rightarrow> (result, st2, g')))"

section \<open>Loading JSON with fallback\<close>

text \<open>
  A thrown JavaScript value is an \<^verbatim>\<open>Error\<close> object with its message, or something else
  (\<^verbatim>\<open>load\<close> tells them apart with \<^verbatim>\<open>error instanceof Error\<close>).
  \<^verbatim>\<open>fetch(source)\<close> either rejects with a thrown value or resolves with a response; the
  response has the flag \<^verbatim>\<open>ok\<close>, and \<^verbatim>\<open>response.json()\<close> either rejects (the body is not
  JSON) or resolves with the parsed value, of the type \<open>'j\<close> the caller asks for.
  The network is a function from source locations to outcomes.
\<close>

datatype thrown = ErrorObject jsstring | OtherValue

record 'j Response =
  ok :: bool
  json :: "thrown + 'j"

type_synonym 'j network = "jsstring \<Rightarrow> thrown + 'j Response"

text \<open>\<^verbatim>\<open>"Unable to load JSON"\<close>\<close>

definition Unable_to_load_JSON :: jsstring where
  "Unable_to_load_JSON =
     [0x0055, 0x006E, 0x0061, 0x0062, 0x006C, 0x0065, 0x0020, 0x0074, 0x006F, 0x0020,
      0x006C, 0x006F, 0x0061, 0x0064, 0x0020, 0x004A, 0x0053, 0x004F, 0x004E]"

text \<open>
  \<^verbatim>\<open>
  const loadJsonWithFallback = async <T,>(sources: string[]): Promise<T> => {
    for (const source of sources) {
      const response = await fetch(source, { cache: "no-store" });
      if (response.ok) {
        return response.json() as Promise<T>;
      }
    }
    throw new Error("Unable to load JSON");
  };
  \<close>
  The result is the list of the sources fetched, in the order of the calls, and the outcome:
  \<open>Inl\<close> a thrown value (the promise rejects), \<open>Inr\<close> the parsed JSON.
\<close>

fun loadJsonWithFallback :: "'j network \<Rightarrow> jsstring list \<Rightarrow> jsstring list \<times> (thrown + 'j)" where
  "loadJsonWithFallback fetch [] = ([], Inl (ErrorObject Unable_to_load_JSON))"
| "loadJsonWithFallback fetch (source # sources) =
     (case fetch source of
        Inl e \<Rightarrow> ([source], Inl e)
      | Inr response \<Rightarrow>
          if ok response then ([source], json response)
          else (case loadJsonWithFallback fetch sources of
                  (fetched, outcome) \<Rightarrow> (source # fetched, outcome)))"

text \<open>
  A candidate succeeds when its fetch resolves with a response whose \<^verbatim>\<open>ok\<close> flag is set;
  it answers "not ok" when its fetch resolves with a response whose flag is not set.
\<close>

definition succeeds :: "'j network \<Rightarrow> jsstring \<Rightarrow> bool" where
  "succeeds fetch source = (case fetch source of Inl e \<Rightarrow> False | Inr response \<Rightarrow> ok response)"

definition not_ok :: "'j network \<Rightarrow> jsstring \<Rightarrow> bool" where
  "not_ok fetch source = (case fetch source of Inl e \<Rightarrow> False | Inr response \<Rightarrow> \<not> ok response)"

section \<open>The background map (part 001)\<close>

text \<open>
  \<^verbatim>\<open>
  const createBackgroundMap = (count: number, backgrounds: string[]): (string | null)[] => {
    if (backgrounds.length === 0) {
      return new Array(count).fill(null);
    }
    return Array.from({ length: count }, () => {
      const pick = backgrounds[Math.floor(Math.random() * backgrounds.length)];
      return pick;
    });
  };
  \<close>
  \<^verbatim>\<open>count\<close> (here \<open>count'\<close>) is the length of a list wherever the function is called, a
  natural number.
  \<open>Array_from n f\<close> is \<^verbatim>\<open>Array.from({ length: n }, f)\<close>: it calls \<open>f\<close> for the positions
  \<open>0\<close> to \<open>n - 1\<close> in that order. An entry \<open>None\<close> is \<^verbatim>\<open>null\<close>. \<open>pickBackground\<close> is the
  expression \<^verbatim>\<open>backgrounds[Math.floor(Math.random() * backgrounds.length)]\<close>, which
  \<^verbatim>\<open>handleOptionClick\<close> of part 000 evaluates as well.
\<close>

fun Array_from :: "nat \<Rightarrow> (rng \<Rightarrow> 'a \<times> rng) \<Rightarrow> rng \<Rightarrow> 'a list \<times> rng" where
  "Array_from 0 f g = ([], g)"
| "Array_from (Suc n) f g =
     (case f g of
        (x, g1) \<Rightarrow> (case Array_from n f g1 of (xs, g2) \<Rightarrow> (x # xs, g2)))"

definition pickBackground :: "jsstring list \<Rightarrow> rng \<Rightarrow> jsstring option \<times> rng" where
  "pickBackground backgrounds g =
     (case randomIndex g (length backgrounds) of (k, g') \<Rightarrow> (item_at backgrounds k, g'))"

definition createBackgroundMap :: "nat \<Rightarrow> jsstring list \<Rightarrow> rng \<Rightarrow> jsstring option list \<times> rng" where
  "createBackgroundMap count' backgrounds g =
     (if length backgrounds = 0 then (replicate count' None, g)
      else Array_from count' (pickBackground backgrounds) g)"

section \<open>The session\<close>

text \<open>
  \<^verbatim>\<open>type LoadState = "loading" | "ready" | "error"\<close>. The component \<^verbatim>\<open>App\<close> exists in two
  versions. Both keep \<^verbatim>\<open>state\<close>, \<^verbatim>\<open>questions\<close>, \<^verbatim>\<open>backgrounds\<close>, \<^verbatim>\<open>currentIndex\<close>,
  \<^verbatim>\<open>selectedIndex\<close> and \<^verbatim>\<open>errorMessage\<close>; part 000 adds \<^verbatim>\<open>answerFooterImage\<close> (a
  background drawn when an option is chosen), part 001 adds \<^verbatim>\<open>backgroundMap\<close> (a background
  for each question, drawn at load and at restart). A handler is a function from the state
  it is called in to the state after its updates.
\<close>

datatype LoadState = loading | ready | error

record App =
  state :: LoadState
  questions :: "Question list"
  backgrounds :: "jsstring list"
  currentIndex :: nat
  selectedIndex :: "nat option"
  errorMessage :: jsstring

record App_000 = App +
  answerFooterImage :: "jsstring option"

record App_001 = App +
  backgroundMap :: "jsstring option list"

text \<open>The state of \<^verbatim>\<open>useState\<close>'s initial values.\<close>

definition initial_000 :: App_000 where
  "initial_000 =
     \<lparr>state = loading, questions = [], backgrounds = [], currentIndex = 0,
      selectedIndex = None, errorMessage = [], answerFooterImage = None\<rparr>"

definition initial_001 :: App_001 where
  "initial_001 =
     \<lparr>state = loading, questions = [], backgrounds = [], currentIndex = 0,
      selectedIndex = None, errorMessage = [], backgroundMap = []\<rparr>"

text \<open>
  \<^verbatim>\<open>
  const currentQuestion = questions[currentIndex];
  const total = questions.length;
  const answered = selectedIndex !== null;
  const isFinished = state === "ready" && currentIndex >= total;
  \<close>
\<close>

definition currentQuestion :: "'a App_scheme \<Rightarrow> Question option" where
  "currentQuestion s = item_at (questions s) (currentIndex s)"

definition total :: "'a App_scheme \<Rightarrow> nat" where
  "total s = length (questions s)"

definition answered :: "'a App_scheme \<Rightarrow> bool" where
  "answered s \<longleftrightarrow> selectedIndex s \<noteq> None"

definition isFinished :: "'a App_scheme \<Rightarrow> bool" where
  "isFinished s \<longleftrightarrow> state s = ready \<and> currentIndex s \<ge> total s"

text \<open>
  The question view is rendered under
  \<^verbatim>\<open>state === "ready" && !isFinished && currentQuestion\<close>: the presenting state.
\<close>

definition presenting :: "'a App_scheme \<Rightarrow> bool" where
  "presenting s \<longleftrightarrow> state s = ready \<and> \<not> isFinished s \<and> currentQuestion s \<noteq> None"

subsection \<open>Source locations and messages\<close>

text \<open>Part 000: \<^verbatim>\<open>["./questions.json", "/questions.json"]\<close>\<close>

definition QUESTION_SOURCES_000 :: "jsstring list" where
  "QUESTION_SOURCES_000 =
     [[0x002E, 0x002F, 0x0071, 0x0075, 0x0065, 0x0073, 0x0074, 0x0069, 0x006F, 0x006E,
       0x0073, 0x002E, 0x006A, 0x0073, 0x006F, 0x006E],
      [0x002F, 0x0071, 0x0075, 0x0065, 0x0073, 0x0074, 0x0069, 0x006F, 0x006E, 0x0073,
       0x002E, 0x006A, 0x0073, 0x006F, 0x006E]]"

text \<open>Part 000: \<^verbatim>\<open>["./backgrounds/index.json", "/backgrounds/index.json"]\<close>\<close>

definition BACKGROUND_SOURCES_000 :: "jsstring list" where
  "BACKGROUND_SOURCES_000 =
     [[0x002E, 0x002F, 0x0062, 0x0061, 0x0063, 0x006B, 0x0067, 0x0072, 0x006F, 0x0075,
       0x006E, 0x0064, 0x0073, 0x002F, 0x0069, 0x006E, 0x0064, 0x0065, 0x0078, 0x002E,
       0x006A, 0x0073, 0x006F, 0x006E],
      [0x002F, 0x0062, 0x0061, 0x0063, 0x006B, 0x0067, 0x0072, 0x006F, 0x0075, 0x006E,
       0x0064, 0x0073, 0x002F, 0x0069, 0x006E, 0x0064, 0x0065, 0x0078, 0x002E, 0x006A,
       0x0073, 0x006F, 0x006E]]"

text \<open>Part 001: \<^verbatim>\<open>["/files/questions.json", "/questions.json"]\<close>\<close>

definition QUESTION_SOURCES_001 :: "jsstring list" where
  "QUESTION_SOURCES_001 =
     [[0x002F, 0x0066, 0x0069, 0x006C, 0x0065, 0x0073, 0x002F, 0x0071, 0x0075, 0x0065,
       0x0073, 0x0074, 0x0069, 0x006F, 0x006E, 0x0073, 0x002E, 0x006A, 0x0073, 0x006F,
       0x006E],
      [0x002F, 0x0071, 0x0075, 0x0065, 0x0073, 0x0074, 0x0069, 0x006F, 0x006E, 0x0073,
       0x002E, 0x006A, 0x0073, 0x006F, 0x006E]]"

text \<open>Part 001: \<^verbatim>\<open>["/files/backgrounds/index.json", "/backgrounds/index.json"]\<close>\<close>

definition BACKGROUND_SOURCES_001 :: "jsstring list" where
  "BACKGROUND_SOURCES_001 =
     [[0x002F, 0x0066, 0x0069, 0x006C, 0x0065, 0x0073, 0x002F, 0x0062, 0x0061, 0x0063,
       0x006B, 0x0067, 0x0072, 0x006F, 0x0075, 0x006E, 0x0064, 0x0073, 0x002F, 0x0069,
       0x006E, 0x0064, 0x0065, 0x0078, 0x002E, 0x006A, 0x0073, 0x006F, 0x006E],
      [0x002F, 0x0062, 0x0061, 0x0063, 0x006B, 0x0067, 0x0072, 0x006F, 0x0075, 0x006E,
       0x0064, 0x0073, 0x002F, 0x0069, 0x006E, 0x0064, 0x0065, 0x0078, 0x002E, 0x006A,
       0x0073, 0x006F, 0x006E]]"

text \<open>
  The message set when no question survives normalisation, a Russian sentence
  ("there are no suitable questions in the file"), as UTF-16 code units.
\<close>

definition no_valid_questions_message :: jsstring where
  "no_valid_questions_message =
     [0x041D, 0x0435, 0x0442, 0x0020, 0x043F, 0x043E, 0x0434, 0x0445, 0x043E, 0x0434,
      0x044F, 0x0449, 0x0438, 0x0445, 0x0020, 0x0432, 0x043E, 0x043F, 0x0440, 0x043E,
      0x0441, 0x043E, 0x0432, 0x0020, 0x0432, 0x0020, 0x0444, 0x0430, 0x0439, 0x043B,
      0x0435, 0x002E]"

text \<open>
  The message set when the caught value is not an \<^verbatim>\<open>Error\<close>, a Russian sentence
  ("the questions could not be loaded").
\<close>

definition load_failed_message :: jsstring where
  "load_failed_message =
     [0x041D, 0x0435, 0x0020, 0x0443, 0x0434, 0x0430, 0x043B, 0x043E, 0x0441, 0x044C,
      0x0020, 0x0437, 0x0430, 0x0433, 0x0440, 0x0443, 0x0437, 0x0438, 0x0442, 0x044C,
      0x0020, 0x0432, 0x043E, 0x043F, 0x0440, 0x043E, 0x0441, 0x044B, 0x002E]"

text \<open>\<^verbatim>\<open>error instanceof Error ? error.message : "..."\<close>\<close>

definition caughtMessage :: "thrown \<Rightarrow> jsstring" where
  "caughtMessage e = (case e of ErrorObject m \<Rightarrow> m | OtherValue \<Rightarrow> load_failed_message)"

subsection \<open>Part 000: a background drawn at the answer\<close>

text \<open>
  \<^verbatim>\<open>
  const handleOptionClick = (index: number) => {
    if (answered || !currentQuestion) {
      return;
    }
    setSelectedIndex(index);
    setAnswerFooterImage(
      backgrounds.length
        ? backgrounds[Math.floor(Math.random() * backgrounds.length)]
        : null
    );
  };
  \<close>
  \<^verbatim>\<open>index\<close> is the position of an option, a natural number.
\<close>

definition handleOptionClick_000 :: "nat \<Rightarrow> App_000 \<Rightarrow> rng \<Rightarrow> App_000 \<times> rng" where
  "handleOptionClick_000 index s g =
     (if answered s \<or> currentQuestion s = None then (s, g)
      else (case (if length (backgrounds s) \<noteq> 0 then pickBackground (backgrounds s) g
                  else (None, g)) of
              (picked, g') \<Rightarrow>
                (s\<lparr>selectedIndex := Some index, answerFooterImage := picked\<rparr>, g')))"

text \<open>
  \<^verbatim>\<open>
  const handleNext = () => {
    if (currentIndex + 1 >= total) {
      setCurrentIndex(total);
      setSelectedIndex(null);
      setAnswerFooterImage(null);
      return;
    }
    setCurrentIndex((prev) => prev + 1);
    setSelectedIndex(null);
    setAnswerFooterImage(null);
  };
  \<close>
\<close>

definition handleNext_000 :: "App_000 \<Rightarrow> App_000" where
  "handleNext_000 s =
     (if currentIndex s + 1 \<ge> total s
      then s\<lparr>currentIndex := total s, selectedIndex := None, answerFooterImage := None\<rparr>
      else s\<lparr>currentIndex := currentIndex s + 1, selectedIndex := None,
             answerFooterImage := None\<rparr>)"

text \<open>
  \<^verbatim>\<open>
  const handleRestart = () => {
    const shuffled = shuffle(questions);
    setQuestions(shuffled);
    setCurrentIndex(0);
    setSelectedIndex(null);
    setAnswerFooterImage(null);
  };
  \<close>
\<close>

definition handleRestart_000 :: "App_000 \<Rightarrow> rng \<Rightarrow> App_000 \<times> rng" where
  "handleRestart_000 s g =
     (case shuffle (questions s) g of
        (shuffled, g') \<Rightarrow>
          (s\<lparr>questions := shuffled, currentIndex := 0, selectedIndex := None,
             answerFooterImage := None\<rparr>, g'))"

text \<open>
  \<^verbatim>\<open>
  const load = async () => {
    try {
      const [rawQuestions, backgroundList] = await Promise.all([
        loadJsonWithFallback<Question[]>(QUESTION_SOURCES),
        loadJsonWithFallback<string[]>(BACKGROUND_SOURCES).catch(() => [])
      ]);
      const normalized = normalizeQuestions(rawQuestions);
      const shuffled = shuffle(normalized);
      setQuestions(shuffled);
      setBackgrounds(backgroundList);
      setState(shuffled.length ? "ready" : "error");
      if (!shuffled.length) {
        setErrorMessage("...");
      }
    } catch (error) {
      setState("error");
      setErrorMessage(error instanceof Error ? error.message : "...");
    }
  };
  \<close>
  \<open>fetchQ\<close> is the network read at the type of the question resource, \<open>fetchB\<close> at the type
  of the background resource: the parsed values are taken at the types the code gives them,
  \<^verbatim>\<open>Question[]\<close> and \<^verbatim>\<open>string[]\<close>. \<^verbatim>\<open>Promise.all\<close> rejects when the question promise rejects;
  the background promise cannot reject, its \<^verbatim>\<open>catch\<close> turns every rejection into \<^verbatim>\<open>[]\<close>.
\<close>

definition loadBackgrounds :: "jsstring list network \<Rightarrow> jsstring list \<Rightarrow> jsstring list" where
  "loadBackgrounds fetchB sources =
     (case snd (loadJsonWithFallback fetchB sources) of Inl e \<Rightarrow> [] | Inr l \<Rightarrow> l)"

definition load_000 ::
  "Question list network \<Rightarrow> jsstring list network \<Rightarrow> App_000 \<Rightarrow> rng \<Rightarrow> App_000 \<times> rng" where
  "load_000 fetchQ fetchB s g =
     (case snd (loadJsonWithFallback fetchQ QUESTION_SOURCES_000) of
        Inl e \<Rightarrow> (s\<lparr>state := error, errorMessage := caughtMessage e\<rparr>, g)
      | Inr rawQuestions \<Rightarrow>
          (let backgroundList = loadBackgrounds fetchB BACKGROUND_SOURCES_000;
               normalized = normalizeQuestions rawQuestions
           in case shuffle normalized g of
                (shuffled, g') \<Rightarrow>
                  (let s1 = s\<lparr>questions := shuffled, backgrounds := backgroundList,
                                state := (if length shuffled \<noteq> 0 then ready else error)\<rparr>
                   in (if length shuffled = 0
                       then s1\<lparr>errorMessage := no_valid_questions_message\<rparr>
                       else s1, g'))))"

subsection \<open>Part 001: a background for each question\<close>

text \<open>
  \<^verbatim>\<open>
  const handleOptionClick = (index: number) => {
    if (answered || !currentQuestion) {
      return;
    }
    setSelectedIndex(index);
  };
  \<close>
\<close>

definition handleOptionClick_001 :: "nat \<Rightarrow> App_001 \<Rightarrow> App_001" where
  "handleOptionClick_001 index s =
     (if answered s \<or> currentQuestion s = None then s
      else s\<lparr>selectedIndex := Some index\<rparr>)"

text \<open>
  \<^verbatim>\<open>
  const handleNext = () => {
    if (currentIndex + 1 >= total) {
      setCurrentIndex(total);
      setSelectedIndex(null);
      return;
    }
    setCurrentIndex((prev) => prev + 1);
    setSelectedIndex(null);
  };
  \<close>
\<close>

definition handleNext_001 :: "App_001 \<Rightarrow> App_001" where
  "handleNext_001 s =
     (if currentIndex s + 1 \<ge> total s
      then s\<lparr>currentIndex := total s, selectedIndex := None\<rparr>
      else s\<lparr>currentIndex := currentIndex s + 1, selectedIndex := None\<rparr>)"

text \<open>
  \<^verbatim>\<open>
  const handleRestart = () => {
    const shuffled = shuffle(questions);
    setQuestions(shuffled);
    setBackgroundMap(createBackgroundMap(shuffled.length, backgrounds));
    setCurrentIndex(0);
    setSelectedIndex(null);
  };
  \<close>
\<close>

definition handleRestart_001 :: "App_001 \<Rightarrow> rng \<Rightarrow> App_001 \<times> rng" where
  "handleRestart_001 s g =
     (case shuffle (questions s) g of
        (shuffled, g1) \<Rightarrow>
          (case createBackgroundMap (length shuffled) (backgrounds s) g1 of
             (bmap, g2) \<Rightarrow>
               (s\<lparr>questions := shuffled, currentIndex := 0, selectedIndex := None,
                  backgroundMap := bmap\<rparr>, g2)))"

text \<open>
  \<^verbatim>\<open>load\<close> of part 001 is that of part 000 with its own source locations and, after
  \<^verbatim>\<open>setBackgrounds(backgroundList)\<close>, the line
  \<^verbatim>\<open>setBackgroundMap(createBackgroundMap(shuffled.length, backgroundList));\<close>
\<close>

definition load_001 ::
  "Question list network \<Rightarrow> jsstring list network \<Rightarrow> App_001 \<Rightarrow> rng \<Rightarrow> App_001 \<times> rng" where
  "load_001 fetchQ fetchB s g =
     (case snd (loadJsonWithFallback fetchQ QUESTION_SOURCES_001) of
        Inl e \<Rightarrow> (s\<lparr>state := error, errorMessage := caughtMessage e\<rparr>, g)
      | Inr rawQuestions \<Rightarrow>
          (let backgroundList = loadBackgrounds fetchB BACKGROUND_SOURCES_001;
               normalized = normalizeQuestions rawQuestions
           in case shuffle normalized g of
                (shuffled, g1) \<Rightarrow>
                  (case createBackgroundMap (length shuffled) backgroundList g1 of
                     (bmap, g2) \<Rightarrow>
                       (let s1 = s\<lparr>questions := shuffled, backgrounds := backgroundList,
                                     backgroundMap := bmap,
                                     state := (if length shuffled \<noteq> 0 then ready else error)\<rparr>
                        in (if length shuffled = 0
                            then s1\<lparr>errorMessage := no_valid_questions_message\<rparr>
                            else s1, g2)))))"

subsection \<open>The session after the load, as the specification words it\<close>

text \<open>
  When the question resource loads and the normaliser yields at least one question, the
  session is ready and presenting, at position 0 with no selection and as many questions as
  the normaliser yielded. When it yields none, the session is in the error state with the
  "no valid questions" message. When the question resource fails to load, the session is in
  the error state with the message of the failure.
\<close>

definition spec_after_load :: "thrown + Question list \<Rightarrow> 'a App_scheme \<Rightarrow> bool" where
  "spec_after_load outcome s \<longleftrightarrow>
     (case outcome of
        Inr raw \<Rightarrow>
          if normalizeQuestions raw \<noteq> []
          then presenting s \<and> currentIndex s = 0 \<and> selectedIndex s = None \<and>
               length (questions s) = length (normalizeQuestions raw)
          else state s = error \<and> errorMessage s = no_valid_questions_message
      | Inl e \<Rightarrow> state s = error \<and> errorMessage s = caughtMessage e)"

section \<open>Example inputs\<close>

text \<open>
  A record with the prompt \<^verbatim>\<open>" Q1 "\<close> and four options whose texts are a space, absent,
  empty, and a tab followed by a no-break space.
\<close>

definition example_blank_options :: Question where
  "example_blank_options =
     \<lparr>question = Some [0x0020, 0x0051, 0x0031, 0x0020],
      options = Some [\<lparr>text' = Some [0x0020], right = Some True\<rparr>,
                      \<lparr>text' = None, right = None\<rparr>,
                      \<lparr>text' = Some [], right = Some False\<rparr>,
                      \<lparr>text' = Some [0x0009, 0x00A0], right = None\<rparr>]\<rparr>"

text \<open>A record with the prompt \<^verbatim>\<open>"Q1"\<close> and three options, and one with no options field.\<close>

definition example_three_options :: Question where
  "example_three_options =
     \<lparr>question = Some [0x0051, 0x0031],
      options = Some [\<lparr>text' = Some [0x0061], right = Some True\<rparr>,
                      \<lparr>text' = Some [0x0062], right = None\<rparr>,
                      \<lparr>text' = Some [0x0063], right = None\<rparr>]\<rparr>"

definition example_no_options :: Question where
  "example_no_options = \<lparr>question = Some [0x0051, 0x0031], options = None\<rparr>"

text \<open>
  A record with a prompt of two spaces and the four options \<^verbatim>\<open>"a"\<close>, \<^verbatim>\<open>"b"\<close>, \<^verbatim>\<open>"c"\<close>,
  \<^verbatim>\<open>"d"\<close>, and the record of the specification's scenario A: the prompt \<^verbatim>\<open>"Q1"\<close> with
  the same options, the first one right.
\<close>

definition four_options :: "QuestionOption list" where
  "four_options =
     [\<lparr>text' = Some [0x0061], right = Some True\<rparr>,
      \<lparr>text' = Some [0x0062], right = None\<rparr>,
      \<lparr>text' = Some [0x0063], right = None\<rparr>,
      \<lparr>text' = Some [0x0064], right = None\<rparr>]"

definition example_blank_prompt :: Question where
  "example_blank_prompt = \<lparr>question = Some [0x0020, 0x0020], options = Some four_options\<rparr>"

definition example_Q1 :: Question where
  "example_Q1 = \<lparr>question = Some [0x0051, 0x0031], options = Some four_options\<rparr>"

definition example_Q2 :: Question where
  "example_Q2 = \<lparr>question = Some [0x0051, 0x0032], options = Some four_options\<rparr>"


text \<open>A generator whose draws are \<open>1/2\<close>, \<open>0\<close>, \<open>1/2\<close>, \<open>1/2\<close> and so on.\<close>

definition example_draws :: rng where
  "example_draws k = (if k = 1 then 0 else 1 / 2)"

text \<open>
  Example networks. \<open>first_then a r1 r2\<close> answers \<open>r1\<close> at the location \<open>a\<close> and \<open>r2\<close>
  at every other location. An answer is \<open>found x\<close> (a response with \<^verbatim>\<open>ok\<close> set whose body
  parses to \<open>x\<close>), \<open>not_found\<close> (a response with \<^verbatim>\<open>ok\<close> not set), \<open>not_json\<close> (a response
  with \<^verbatim>\<open>ok\<close> set whose body is not JSON, as a server answers that sends its HTML page for
  every path), or \<open>rejected\<close> (the fetch itself fails). The messages are
  \<^verbatim>\<open>"Failed to fetch"\<close> and \<^verbatim>\<open>"Unexpected token '<'"\<close>.
\<close>

definition Failed_to_fetch :: jsstring where
  "Failed_to_fetch =
     [0x0046, 0x0061, 0x0069, 0x006C, 0x0065, 0x0064, 0x0020, 0x0074, 0x006F, 0x0020,
      0x0066, 0x0065, 0x0074, 0x0063, 0x0068]"

definition Unexpected_token :: jsstring where
  "Unexpected_token =
     [0x0055, 0x006E, 0x0065, 0x0078, 0x0070, 0x0065, 0x0063, 0x0074, 0x0065, 0x0064,
      0x0020, 0x0074, 0x006F, 0x006B, 0x0065, 0x006E, 0x0020, 0x0027, 0x003C, 0x0027]"

definition found :: "'j \<Rightarrow> thrown + 'j Response" where
  "found x = Inr \<lparr>ok = True, json = Inr x\<rparr>"

definition not_found :: "thrown + 'j Response" where
  "not_found = Inr \<lparr>ok = False, json = Inl (ErrorObject Unexpected_token)\<rparr>"

definition not_json :: "thrown + 'j Response" where
  "not_json = Inr \<lparr>ok = True, json = Inl (ErrorObject Unexpected_token)\<rparr>"

definition rejected :: "thrown + 'j Response" where
  "rejected = Inl (ErrorObject Failed_to_fetch)"

definition first_then ::
  "jsstring \<Rightarrow> (thrown + 'j Response) \<Rightarrow> (thrown + 'j Response) \<Rightarrow> 'j network" where
  "first_then a r1 r2 = (\<lambda>source. if source = a then r1 else r2)"

text \<open>Two source locations, \<^verbatim>\<open>"a"\<close> and \<^verbatim>\<open>"b"\<close>, and two backgrounds, \<^verbatim>\<open>"bg1.png"\<close> and \<^verbatim>\<open>"bg2.png"\<close>.\<close>

definition source_a :: jsstring where
  "source_a = [0x0061]"

definition source_b :: jsstring where
  "source_b = [0x0062]"

definition example_pool :: "jsstring list" where
  "example_pool =
     [[0x0062, 0x0067, 0x0031, 0x002E, 0x0070, 0x006E, 0x0067],
      [0x0062, 0x0067, 0x0032, 0x002E, 0x0070, 0x006E, 0x0067]]"

text \<open>
  A network on which every location of the background resource answers the empty list.
\<close>

definition empty_backgrounds_network :: "jsstring list network" where
  "empty_backgrounds_network = (\<lambda>source. found [])"

text \<open>
  Sessions of both parts in the middle of a run: two questions, the first one shown and its
  option 2 chosen.
\<close>

definition example_session_000 :: App_000 where
  "example_session_000 =
     \<lparr>state = ready, questions = [example_Q1, example_Q2], backgrounds = example_pool,
      currentIndex = 0, selectedIndex = Some 2, errorMessage = [],
      answerFooterImage = Some (example_pool ! 0)\<rparr>"

definition example_session_001 :: App_001 where
  "example_session_001 =
     \<lparr>state = ready, questions = [example_Q1, example_Q2], backgrounds = example_pool,
      currentIndex = 0, selectedIndex = Some 2, errorMessage = [],
      backgroundMap = [Some (example_pool ! 1), Some (example_pool ! 0)]\<rparr>"

text \<open>
  The example sessions with the question unanswered, and at the end of the run; a generator
  whose draws are \<open>0\<close>, \<open>1/2\<close>, \<open>1/2\<close> and so on.
\<close>

definition example_unanswered_000 :: App_000 where
  "example_unanswered_000 = example_session_000\<lparr>selectedIndex := None, answerFooterImage := None\<rparr>"

definition example_unanswered_001 :: App_001 where
  "example_unanswered_001 = example_session_001\<lparr>selectedIndex := None\<rparr>"

definition example_finished_000 :: App_000 where
  "example_finished_000 =
     example_session_000\<lparr>currentIndex := 2, selectedIndex := None, answerFooterImage := None\<rparr>"

definition example_finished_001 :: App_001 where
  "example_finished_001 = example_session_001\<lparr>currentIndex := 2, selectedIndex := None\<rparr>"

definition example_draws_tail :: rng where
  "example_draws_tail k = example_draws (Suc k)"

text \<open>
  Networks for the question resource: one on which the first location of the part answers
  "not ok" and every other location answers two records, the first with a blank prompt; one
  on which every location answers the empty array; one on which every location answers
  "not ok". Networks for the background resource: one that answers the example pool and one
  on which every fetch is rejected.
\<close>

definition relocated_questions_000 :: "Question list network" where
  "relocated_questions_000 =
     first_then (QUESTION_SOURCES_000 ! 0) not_found (found [example_blank_prompt, example_Q1])"

definition relocated_questions_001 :: "Question list network" where
  "relocated_questions_001 =
     first_then (QUESTION_SOURCES_001 ! 0) not_found (found [example_blank_prompt, example_Q1])"

definition no_questions :: "Question list network" where
  "no_questions = (\<lambda>source. found [])"

definition questions_unreachable :: "Question list network" where
  "questions_unreachable = (\<lambda>source. not_found)"

definition pool_network :: "jsstring list network" where
  "pool_network = (\<lambda>source. found example_pool)"

definition backgrounds_unreachable :: "jsstring list network" where
  "backgrounds_unreachable = (\<lambda>source. rejected)"

section \<open>Properties of trimming\<close>

lemma trim_Nil: "trim [] = []"
  by (simp add: trim_def)

lemma dropWhile_rev_dropWhile:
  "dropWhile P (rev (dropWhile P (rev (dropWhile P s)))) = rev (dropWhile P (rev (dropWhile P s)))"
proof (cases "rev (dropWhile P (rev (dropWhile P s)))")
  case Nil
  then show ?thesis by (simp only: dropWhile.simps)
next
  case (Cons x u)
  define t where "t = dropWhile P s"
  have "rev (dropWhile P (rev t)) = x # u"
    using Cons by (simp add: t_def)
  then have "dropWhile P (rev t) = rev (x # u)"
    by (metis rev_rev_ident)
  moreover have "rev t = takeWhile P (rev t) @ dropWhile P (rev t)"
    by simp
  ultimately have "rev t = takeWhile P (rev t) @ rev u @ [x]"
    by simp
  then have "t = x # u @ rev (takeWhile P (rev t))"
    by (metis append_Cons rev.simps(2) rev_append rev_swap)
  then have "hd t = x" and "t \<noteq> []"
    by (metis list.sel(1), metis list.distinct(1))
  then have "\<not> P x"
    unfolding t_def by (metis hd_dropWhile)
  then show ?thesis
    using Cons by (simp add: t_def)
qed

lemma trim_trim: "trim (trim s) = trim s"
proof -
  let ?u = "rev (dropWhile isWhiteSpace (rev (dropWhile isWhiteSpace s)))"
  have "dropWhile isWhiteSpace ?u = ?u"
    by (rule dropWhile_rev_dropWhile)
  then have "trim ?u = rev (dropWhile isWhiteSpace (rev ?u))"
    by (simp add: trim_def)
  also have "\<dots> = ?u"
    by simp
  finally show ?thesis
    by (simp add: trim_def)
qed

lemma trimOrEmpty_Some_trimOrEmpty: "trimOrEmpty (Some (trimOrEmpty x)) = trimOrEmpty x"
  by (cases x) (simp_all add: trimOrEmpty_def trim_Nil trim_trim)

lemma trimOrEmpty_spec: "trimOrEmpty x = trim (case x of None \<Rightarrow> [] | Some s \<Rightarrow> s)"
  by (cases x) (simp_all add: trimOrEmpty_def trim_Nil)

section \<open>Properties of the normaliser\<close>

lemma normalizeOption_idem: "normalizeOption (normalizeOption option) = normalizeOption option"
  by (simp add: normalizeOption_def trimOrEmpty_Some_trimOrEmpty)

lemma normalizeEntry_idem: "normalizeEntry (normalizeEntry entry) = normalizeEntry entry"
  by (cases "options entry")
     (simp_all add: normalizeEntry_def trimOrEmpty_Some_trimOrEmpty normalizeOption_idem)

lemma normalizeEntry_spec: "normalizeEntry e = spec_trimmed e"
  by (cases "options e")
     (simp_all add: normalizeEntry_def spec_trimmed_def spec_prompt_def spec_options_def
        spec_text_def normalizeOption_def trimOrEmpty_spec)

lemma keepEntry_normalizeEntry: "keepEntry (normalizeEntry e) \<longleftrightarrow> spec_valid e"
  by (cases "options e")
     (simp_all add: keepEntry_def normalizeEntry_def spec_valid_def spec_prompt_def
        spec_options_def trimOrEmpty_spec)

lemma keepEntry_spec_trimmed: "keepEntry (spec_trimmed e) \<longleftrightarrow> spec_valid e"
  by (simp add: keepEntry_normalizeEntry flip: normalizeEntry_spec)

lemma normalizeQuestions_spec:
  "normalizeQuestions raw = map spec_trimmed (filter spec_valid raw)"
  by (induction raw)
     (simp_all add: normalizeQuestions_def keepEntry_spec_trimmed normalizeEntry_spec)

lemma filter_keepEntry_idem:
  "filter keepEntry (map normalizeEntry (filter keepEntry (map normalizeEntry raw))) =
   filter keepEntry (map normalizeEntry raw)"
  by (induction raw) (simp_all add: normalizeEntry_idem)

section \<open>The claims about the normaliser\<close>

text \<open>
  C2. For every sequence of raw question records, \<open>normalizeQuestions\<close> returns the valid
  records of the input, each trimmed, in the order of the input: a record is valid when its
  prompt is not empty after trimming and it has exactly four options, a missing options
  field counting as no options; in a kept record the prompt and every option's text are
  trimmed and the options stay in their order. In particular a valid record whose option
  texts are all empty after trimming is kept.
\<close>

theorem normalizeQuestions_keeps_valid_trimmed:
  "normalizeQuestions raw = map spec_trimmed (filter spec_valid raw) \<and>
   (spec_valid e \<and> (\<forall>option \<in> set (spec_options e). trim (spec_text option) = [])
      \<longrightarrow> normalizeQuestions [e] = [spec_trimmed e])"
  by (simp add: normalizeQuestions_spec)

theorem normalizeQuestions_keeps_valid_trimmed_witness:
  "spec_valid example_blank_options \<and>
   map (\<lambda>option. trim (spec_text option)) (spec_options example_blank_options) =
     [[], [], [], []] \<and>
   normalizeQuestions [example_blank_options] =
     [\<lparr>question = Some [0x0051, 0x0031],
       options = Some [\<lparr>text' = Some [], right = Some True\<rparr>,
                       \<lparr>text' = Some [], right = None\<rparr>,
                       \<lparr>text' = Some [], right = Some False\<rparr>,
                       \<lparr>text' = Some [], right = None\<rparr>]\<rparr>] \<and>
   normalizeQuestions
     [example_three_options, example_Q2, example_no_options, example_blank_prompt, example_Q1] =
     [example_Q2, example_Q1]"
proof -
  have valid: "spec_valid example_blank_options"
    by (simp add: example_blank_options_def example_three_options_def example_no_options_def
        example_blank_prompt_def example_Q1_def example_Q2_def four_options_def spec_valid_def spec_trimmed_def spec_prompt_def spec_options_def spec_text_def trim_def isWhiteSpace_def)
  have blank: "\<forall>option \<in> set (spec_options example_blank_options). trim (spec_text option) = []"
    by (simp add: example_blank_options_def example_three_options_def example_no_options_def
        example_blank_prompt_def example_Q1_def example_Q2_def four_options_def spec_valid_def spec_trimmed_def spec_prompt_def spec_options_def spec_text_def trim_def isWhiteSpace_def)
  have kept: "normalizeQuestions [example_blank_options] = [spec_trimmed example_blank_options]"
    using normalizeQuestions_keeps_valid_trimmed [of "[]" example_blank_options] valid blank
    by blast
  have mixed: "normalizeQuestions
      [example_three_options, example_Q2, example_no_options, example_blank_prompt, example_Q1] =
    map spec_trimmed (filter spec_valid
      [example_three_options, example_Q2, example_no_options, example_blank_prompt, example_Q1])"
    using normalizeQuestions_keeps_valid_trimmed by blast
  show ?thesis
    unfolding kept mixed using valid blank
    by (simp add: example_blank_options_def example_three_options_def example_no_options_def
        example_blank_prompt_def example_Q1_def example_Q2_def four_options_def spec_valid_def spec_trimmed_def spec_prompt_def spec_options_def spec_text_def trim_def isWhiteSpace_def)
qed

text \<open>
  C9. \<open>normalizeQuestions\<close> is idempotent: applied to its own output it returns that
  output unchanged.
\<close>

theorem normalizeQuestions_idempotent:
  "normalizeQuestions (normalizeQuestions raw) = normalizeQuestions raw"
  by (simp add: normalizeQuestions_def filter_keepEntry_idem)

theorem normalizeQuestions_idempotent_witness:
  "normalizeQuestions [example_blank_options, example_three_options] =
     [\<lparr>question = Some [0x0051, 0x0031],
       options = Some [\<lparr>text' = Some [], right = Some True\<rparr>,
                       \<lparr>text' = Some [], right = None\<rparr>,
                       \<lparr>text' = Some [], right = Some False\<rparr>,
                       \<lparr>text' = Some [], right = None\<rparr>]\<rparr>] \<and>
   normalizeQuestions (normalizeQuestions [example_blank_options, example_three_options]) =
     [\<lparr>question = Some [0x0051, 0x0031],
       options = Some [\<lparr>text' = Some [], right = Some True\<rparr>,
                       \<lparr>text' = Some [], right = None\<rparr>,
                       \<lparr>text' = Some [], right = Some False\<rparr>,
                       \<lparr>text' = Some [], right = None\<rparr>]\<rparr>]"
proof -
  have once: "normalizeQuestions [example_blank_options, example_three_options] =
     [\<lparr>question = Some [0x0051, 0x0031],
       options = Some [\<lparr>text' = Some [], right = Some True\<rparr>,
                       \<lparr>text' = Some [], right = None\<rparr>,
                       \<lparr>text' = Some [], right = Some False\<rparr>,
                       \<lparr>text' = Some [], right = None\<rparr>]\<rparr>]"
    by (simp add: normalizeQuestions_def normalizeEntry_def normalizeOption_def keepEntry_def
        trimOrEmpty_def example_blank_options_def example_three_options_def example_no_options_def
        example_blank_prompt_def example_Q1_def example_Q2_def four_options_def trim_def isWhiteSpace_def)
  show ?thesis
    using normalizeQuestions_idempotent [of "[example_blank_options, example_three_options]"] once
    by simp
qed

section \<open>Properties of the random draws and of shuffling\<close>

lemma randomIndex_less:
  assumes "unit_draws g" and "0 < n"
  shows "fst (randomIndex g n) < n"
proof -
  have u: "0 \<le> g 0" "g 0 < 1"
    using assms(1) by (simp_all add: unit_draws_def)
  have "g 0 * of_nat n < of_nat n"
    using u(2) assms(2) by simp
  then have "\<lfloor>g 0 * of_nat n\<rfloor> < int n"
    by (simp add: floor_less_iff)
  moreover have "0 \<le> \<lfloor>g 0 * of_nat n\<rfloor>"
    using u(1) by simp
  ultimately have "nat \<lfloor>g 0 * of_nat n\<rfloor> < n"
    by linarith
  then show ?thesis
    by (simp add: randomIndex_def)
qed

lemma unit_draws_randomIndex: "unit_draws g \<Longrightarrow> unit_draws (snd (randomIndex g n))"
  by (simp add: unit_draws_def randomIndex_def)

lemma length_swap: "length (swap xs i j) = length xs"
  by (simp add: swap_def)

lemma mset_swap_in_range:
  "i < length xs \<Longrightarrow> j < length xs \<Longrightarrow> mset (swap xs i j) = mset xs"
  by (simp add: swap_def mset_swap)

lemma length_shuffle_loop: "length (fst (shuffle_loop n result g)) = length result"
  by (induction n arbitrary: result g) (simp_all add: length_swap split: prod.split)

lemma mset_shuffle_loop:
  "unit_draws g \<Longrightarrow> n < length result \<Longrightarrow> mset (fst (shuffle_loop n result g)) = mset result"
proof (induction n arbitrary: result g)
  case 0
  then show ?case by simp
next
  case (Suc n)
  obtain j g' where r: "randomIndex g (Suc n + 1) = (j, g')"
    by (cases "randomIndex g (Suc n + 1)")
  have "j < Suc n + 1"
    using randomIndex_less [OF Suc.prems(1), of "Suc n + 1"] r by simp
  then have j: "j < length result"
    using Suc.prems(2) by simp
  have g': "unit_draws g'"
    using unit_draws_randomIndex [OF Suc.prems(1), of "Suc n + 1"] r by simp
  have "mset (fst (shuffle_loop n (swap result (Suc n) j) g')) = mset (swap result (Suc n) j)"
    using Suc.IH [OF g'] Suc.prems(2) by (simp add: length_swap)
  then show ?case
    using r j Suc.prems(2) by (simp add: mset_swap_in_range)
qed

lemma unit_draws_shuffle_loop:
  "unit_draws g \<Longrightarrow> unit_draws (snd (shuffle_loop n result g))"
proof (induction n arbitrary: result g)
  case 0
  then show ?case by simp
next
  case (Suc n)
  then show ?case
    using unit_draws_randomIndex [of g "Suc n + 1"]
    by (simp split: prod.split) (metis snd_conv)
qed

lemma mset_shuffle: "unit_draws g \<Longrightarrow> mset (fst (shuffle items g)) = mset items"
  by (cases items) (simp_all add: shuffle_def mset_shuffle_loop)

lemma length_shuffle: "length (fst (shuffle items g)) = length items"
  by (simp add: shuffle_def length_shuffle_loop)

lemma unit_draws_shuffle: "unit_draws g \<Longrightarrow> unit_draws (snd (shuffle items g))"
  by (simp add: shuffle_def unit_draws_shuffle_loop)

lemma shuffle_loop_st_eq:
  "result < length st \<Longrightarrow>
   shuffle_loop_st n result st g =
     (st[result := fst (shuffle_loop n (st ! result) g)], snd (shuffle_loop n (st ! result) g))"
  by (induction n arbitrary: st g) (simp_all split: prod.split)

lemma shuffle_st_eq:
  "shuffle_st items st g =
     (length st, st @ [fst (shuffle (st ! items) g)], snd (shuffle (st ! items) g))"
  by (simp add: shuffle_st_def spread_def shuffle_loop_st_eq shuffle_def)


lemma length_Array_from: "length (fst (Array_from n f g)) = n"
  by (induction n arbitrary: g) (simp_all add: case_prod_beta)

lemma pickBackground_member:
  assumes "unit_draws g" and "pool \<noteq> []"
  shows "\<exists>b \<in> set pool. fst (pickBackground pool g) = Some b"
proof -
  have "fst (randomIndex g (length pool)) < length pool"
    using assms by (simp add: randomIndex_less)
  then show ?thesis
    by (simp add: pickBackground_def item_at_def case_prod_beta)
qed

lemma unit_draws_pickBackground:
  "unit_draws g \<Longrightarrow> unit_draws (snd (pickBackground pool g))"
  using unit_draws_randomIndex [of g "length pool"]
  by (simp add: pickBackground_def case_prod_beta)

lemma Array_from_pickBackground_members:
  "unit_draws g \<Longrightarrow> pool \<noteq> [] \<Longrightarrow>
   \<forall>x \<in> set (fst (Array_from n (pickBackground pool) g)). \<exists>b \<in> set pool. x = Some b"
proof (induction n arbitrary: g)
  case 0
  then show ?case by simp
next
  case (Suc n)
  obtain x g1 where p: "pickBackground pool g = (x, g1)"
    by (cases "pickBackground pool g")
  have x: "\<exists>b \<in> set pool. x = Some b"
    using pickBackground_member [OF Suc.prems] p by simp
  have "unit_draws g1"
    using unit_draws_pickBackground [OF Suc.prems(1), of pool] p by simp
  then have "\<forall>y \<in> set (fst (Array_from n (pickBackground pool) g1)).
      \<exists>b \<in> set pool. y = Some b"
    using Suc.IH Suc.prems(2) by blast
  then show ?case
    using p x by (simp add: case_prod_beta)
qed

lemma length_createBackgroundMap: "length (fst (createBackgroundMap n pool g)) = n"
  by (simp add: createBackgroundMap_def length_Array_from)

lemma createBackgroundMap_empty:
  "fst (createBackgroundMap n [] g) = replicate n None"
  by (simp add: createBackgroundMap_def)

lemma createBackgroundMap_members:
  "unit_draws g \<Longrightarrow> pool \<noteq> [] \<Longrightarrow>
   \<forall>x \<in> set (fst (createBackgroundMap n pool g)). \<exists>b \<in> set pool. x = Some b"
  using Array_from_pickBackground_members [of g pool n]
  by (simp add: createBackgroundMap_def)

section \<open>The claims about shuffling and the background map\<close>

text \<open>
  C4. For every array in the store and every generator within the contract of
  \<^verbatim>\<open>Math.random\<close>, \<open>shuffle\<close> returns a permutation of its input (the same elements with
  the same multiplicities), as a new array: the reference returned differs from the
  argument, and the argument and every other array of the store hold what they held before.
\<close>

theorem shuffle_permutation_input_unchanged:
  assumes "unit_draws g" and "items < length st"
  shows "mset (fst (shuffle (st ! items) g)) = mset (st ! items) \<and>
         fst (shuffle_st items st g) \<noteq> items \<and>
         fst (snd (shuffle_st items st g)) ! fst (shuffle_st items st g) =
           fst (shuffle (st ! items) g) \<and>
         fst (snd (shuffle_st items st g)) ! items = st ! items \<and>
         take (length st) (fst (snd (shuffle_st items st g))) = st"
  using assms by (simp add: mset_shuffle shuffle_st_eq nth_append)

theorem shuffle_permutation_input_unchanged_witness:
  "unit_draws example_draws \<and> (0::nat) < length [[1, 2, 3 :: nat]] \<and>
   fst (shuffle_st 0 [[1, 2, 3 :: nat]] example_draws) = 1 \<and>
   fst (snd (shuffle_st 0 [[1, 2, 3 :: nat]] example_draws)) = [[1, 2, 3], [3, 1, 2]] \<and>
   mset [3, 1, 2 :: nat] = mset [1, 2, 3]"
proof -
  have draws: "unit_draws example_draws"
    by (simp add: unit_draws_def example_draws_def)
  have run: "fst (shuffle_st 0 [[1, 2, 3 :: nat]] example_draws) = 1"
    "fst (snd (shuffle_st 0 [[1, 2, 3 :: nat]] example_draws)) = [[1, 2, 3], [3, 1, 2]]"
    by code_simp+
  have "mset (fst (shuffle ([[1, 2, 3 :: nat]] ! 0) example_draws)) = mset ([[1, 2, 3]] ! 0) \<and>
        fst (snd (shuffle_st 0 [[1, 2, 3 :: nat]] example_draws)) !
          fst (shuffle_st 0 [[1, 2, 3 :: nat]] example_draws) =
          fst (shuffle ([[1, 2, 3 :: nat]] ! 0) example_draws)"
    using shuffle_permutation_input_unchanged [OF draws, of 0 "[[1, 2, 3 :: nat]]"] by simp
  then have "mset [3, 1, 2 :: nat] = mset [1, 2, 3]"
    unfolding run by simp
  then show ?thesis
    using draws run by simp
qed

text \<open>
  C10. For every count and every background list, \<open>createBackgroundMap\<close> returns a list of
  exactly that length; when the background list is empty every entry is \<^verbatim>\<open>null\<close>, and
  when it is not empty (and the generator is within the contract of \<^verbatim>\<open>Math.random\<close>) every
  entry is an element of the background list.
\<close>

theorem createBackgroundMap_length_and_entries:
  "length (fst (createBackgroundMap n pool g)) = n \<and>
   (pool = [] \<longrightarrow> (\<forall>x \<in> set (fst (createBackgroundMap n pool g)). x = None)) \<and>
   (unit_draws g \<and> pool \<noteq> [] \<longrightarrow>
      (\<forall>x \<in> set (fst (createBackgroundMap n pool g)). \<exists>b \<in> set pool. x = Some b))"
  using createBackgroundMap_members [of g pool n]
  by (simp add: length_createBackgroundMap createBackgroundMap_empty)

theorem createBackgroundMap_length_and_entries_witness:
  "unit_draws example_draws \<and> example_pool \<noteq> [] \<and>
   fst (createBackgroundMap 3 example_pool example_draws) =
     [Some (example_pool ! 1), Some (example_pool ! 0), Some (example_pool ! 1)] \<and>
   length (fst (createBackgroundMap 3 example_pool example_draws)) = 3 \<and>
   list_all (\<lambda>x. \<exists>b \<in> set example_pool. x = Some b)
     (fst (createBackgroundMap 3 example_pool example_draws)) \<and>
   fst (createBackgroundMap 3 [] example_draws) = [None, None, None] \<and>
   list_all (\<lambda>x. x = None) (fst (createBackgroundMap 3 [] example_draws))"
proof -
  have draws: "unit_draws example_draws"
    by (simp add: unit_draws_def example_draws_def)
  have pool: "example_pool \<noteq> []"
    by (simp add: example_pool_def)
  have run: "fst (createBackgroundMap 3 example_pool example_draws) =
      [Some (example_pool ! 1), Some (example_pool ! 0), Some (example_pool ! 1)]"
    "fst (createBackgroundMap 3 [] example_draws) = [None, None, None]"
    by code_simp+
  note filled = createBackgroundMap_length_and_entries [of 3 example_pool example_draws]
  note empty = createBackgroundMap_length_and_entries [of 3 "[]" example_draws]
  have "length (fst (createBackgroundMap 3 example_pool example_draws)) = 3"
    using filled by blast
  moreover have "\<forall>x \<in> set (fst (createBackgroundMap 3 example_pool example_draws)).
      \<exists>b \<in> set example_pool. x = Some b"
    using filled draws pool by blast
  moreover have "\<forall>x \<in> set (fst (createBackgroundMap 3 [] example_draws)). x = None"
    using empty by blast
  ultimately show ?thesis
    using draws pool run(1) run(2) by (simp only: list_all_iff simp_thms)
qed

section \<open>Properties of the loader and of the session\<close>

lemma loadJsonWithFallback_not_ok_prefix:
  "\<forall>p \<in> set pre. not_ok fetch p \<Longrightarrow>
   loadJsonWithFallback fetch (pre @ rest) =
     (pre @ fst (loadJsonWithFallback fetch rest), snd (loadJsonWithFallback fetch rest))"
  by (induction pre) (auto simp: not_ok_def case_prod_beta split: sum.splits)

lemma loadJsonWithFallback_all_not_ok:
  "\<forall>p \<in> set sources. not_ok fetch p \<Longrightarrow>
   loadJsonWithFallback fetch sources = (sources, Inl (ErrorObject Unable_to_load_JSON))"
  using loadJsonWithFallback_not_ok_prefix [of sources fetch "[]"] by simp

lemma shuffle_Nil_iff: "fst (shuffle items g) = [] \<longleftrightarrow> items = []"
  using length_shuffle [of items g] by (metis length_0_conv)

lemma messages_distinct:
  "caughtMessage (ErrorObject Unable_to_load_JSON) \<noteq> no_valid_questions_message"
  "caughtMessage OtherValue \<noteq> no_valid_questions_message"
  by (simp_all add: caughtMessage_def Unable_to_load_JSON_def no_valid_questions_message_def
      load_failed_message_def)

lemma load_000_spec:
  "spec_after_load (snd (loadJsonWithFallback fetchQ QUESTION_SOURCES_000))
     (fst (load_000 fetchQ fetchB initial_000 g))"
  by (simp add: spec_after_load_def load_000_def initial_000_def Let_def case_prod_beta
      total_def answered_def isFinished_def currentQuestion_def presenting_def
        item_at_def shuffle_Nil_iff length_shuffle split: sum.split)

lemma load_001_spec:
  "spec_after_load (snd (loadJsonWithFallback fetchQ QUESTION_SOURCES_001))
     (fst (load_001 fetchQ fetchB initial_001 g))"
  by (simp add: spec_after_load_def load_001_def initial_001_def Let_def case_prod_beta
      total_def answered_def isFinished_def currentQuestion_def presenting_def
        item_at_def shuffle_Nil_iff length_shuffle split: sum.split)

lemma loadBackgrounds_failure:
  "isl (snd (loadJsonWithFallback fetchB sources)) \<Longrightarrow> loadBackgrounds fetchB sources = []"
  by (cases "snd (loadJsonWithFallback fetchB sources)") (simp_all add: loadBackgrounds_def)

lemma loadBackgrounds_empty_network:
  "sources \<noteq> [] \<Longrightarrow> loadBackgrounds empty_backgrounds_network sources = []"
  by (cases sources) (simp_all add: loadBackgrounds_def empty_backgrounds_network_def found_def)

lemma load_000_backgrounds_absorbed:
  assumes "isl (snd (loadJsonWithFallback fetchB BACKGROUND_SOURCES_000))"
  shows "load_000 fetchQ fetchB s g = load_000 fetchQ empty_backgrounds_network s g"
proof -
  have "loadBackgrounds empty_backgrounds_network BACKGROUND_SOURCES_000 = []"
    by (rule loadBackgrounds_empty_network) (simp add: BACKGROUND_SOURCES_000_def)
  then show ?thesis
    using loadBackgrounds_failure [OF assms] by (simp add: load_000_def split: sum.split)
qed

lemma load_001_backgrounds_absorbed:
  assumes "isl (snd (loadJsonWithFallback fetchB BACKGROUND_SOURCES_001))"
  shows "load_001 fetchQ fetchB s g = load_001 fetchQ empty_backgrounds_network s g"
proof -
  have "loadBackgrounds empty_backgrounds_network BACKGROUND_SOURCES_001 = []"
    by (rule loadBackgrounds_empty_network) (simp add: BACKGROUND_SOURCES_001_def)
  then show ?thesis
    using loadBackgrounds_failure [OF assms] by (simp add: load_001_def split: sum.split)
qed

lemma load_000_backgrounds:
  "backgrounds (fst (load_000 fetchQ fetchB initial_000 g)) =
     (case snd (loadJsonWithFallback fetchQ QUESTION_SOURCES_000) of
        Inl e \<Rightarrow> []
      | Inr raw \<Rightarrow> loadBackgrounds fetchB BACKGROUND_SOURCES_000)"
  by (simp add: load_000_def initial_000_def Let_def case_prod_beta split: sum.split)

lemma load_001_backgrounds:
  "backgrounds (fst (load_001 fetchQ fetchB initial_001 g)) =
     (case snd (loadJsonWithFallback fetchQ QUESTION_SOURCES_001) of
        Inl e \<Rightarrow> []
      | Inr raw \<Rightarrow> loadBackgrounds fetchB BACKGROUND_SOURCES_001)"
  by (simp add: load_001_def initial_001_def Let_def case_prod_beta split: sum.split)

lemma load_001_backgroundMap:
  "backgroundMap (fst (load_001 fetchQ fetchB initial_001 g)) =
     (case snd (loadJsonWithFallback fetchQ QUESTION_SOURCES_001) of
        Inl e \<Rightarrow> []
      | Inr raw \<Rightarrow>
          fst (createBackgroundMap (length (normalizeQuestions raw))
                 (loadBackgrounds fetchB BACKGROUND_SOURCES_001)
                 (snd (shuffle (normalizeQuestions raw) g))))"
  by (simp add: load_001_def initial_001_def Let_def case_prod_beta length_shuffle
      shuffle_Nil_iff split: sum.split)

lemma state_load_000:
  "state (fst (load_000 fetchQ fetchB s g)) =
     (case snd (loadJsonWithFallback fetchQ QUESTION_SOURCES_000) of
        Inl e \<Rightarrow> error
      | Inr raw \<Rightarrow> if normalizeQuestions raw \<noteq> [] then ready else error)"
  by (simp add: load_000_def Let_def case_prod_beta shuffle_Nil_iff split: sum.split)

lemma state_load_001:
  "state (fst (load_001 fetchQ fetchB s g)) =
     (case snd (loadJsonWithFallback fetchQ QUESTION_SOURCES_001) of
        Inl e \<Rightarrow> error
      | Inr raw \<Rightarrow> if normalizeQuestions raw \<noteq> [] then ready else error)"
  by (simp add: load_001_def Let_def case_prod_beta shuffle_Nil_iff split: sum.split)

lemma handleRestart_001_fields:
  "questions (fst (handleRestart_001 t g)) = fst (shuffle (questions t) g)"
  "backgroundMap (fst (handleRestart_001 t g)) =
     fst (createBackgroundMap (length (questions t)) (backgrounds t) (snd (shuffle (questions t) g)))"
  "currentIndex (fst (handleRestart_001 t g)) = 0"
  "selectedIndex (fst (handleRestart_001 t g)) = None"
  "backgrounds (fst (handleRestart_001 t g)) = backgrounds t"
  "state (fst (handleRestart_001 t g)) = state t"
  by (simp_all add: handleRestart_001_def case_prod_beta length_shuffle)

lemma handleRestart_000_fields:
  "questions (fst (handleRestart_000 s g)) = fst (shuffle (questions s) g)"
  "answerFooterImage (fst (handleRestart_000 s g)) = None"
  "currentIndex (fst (handleRestart_000 s g)) = 0"
  "selectedIndex (fst (handleRestart_000 s g)) = None"
  "backgrounds (fst (handleRestart_000 s g)) = backgrounds s"
  "state (fst (handleRestart_000 s g)) = state s"
  by (simp_all add: handleRestart_000_def case_prod_beta)

lemma createBackgroundMap_entries:
  assumes "unit_draws g"
  shows "\<forall>x \<in> set (fst (createBackgroundMap n pool g)).
           case x of None \<Rightarrow> pool = [] | Some b \<Rightarrow> b \<in> set pool"
proof (cases "pool = []")
  case True
  then show ?thesis by (simp add: createBackgroundMap_empty)
next
  case False
  then show ?thesis
    using createBackgroundMap_members [OF assms False, of n] by fastforce
qed

section \<open>The claims about the loader\<close>

text \<open>
  C1, as the code has it. \<open>loadJsonWithFallback\<close> fetches the candidates in order for as long
  as they answer with a response that does not indicate success, and stops at the first
  candidate that does anything else. If that candidate's response indicates success, the
  outcome is that of parsing its body: the parsed JSON, or the parse failure. If that
  candidate's fetch is rejected, the operation fails with the rejection. In both cases no
  later candidate is fetched. If every candidate answers with a response that does not
  indicate success, all are fetched and the operation fails with "Unable to load JSON".
\<close>

theorem loadJsonWithFallback_stops_at_first_settled:
  "((\<forall>p \<in> set pre. not_ok fetch p) \<and> fetch source = Inr response \<and> ok response \<longrightarrow>
      loadJsonWithFallback fetch (pre @ source # post) = (pre @ [source], json response)) \<and>
   ((\<forall>p \<in> set pre. not_ok fetch p) \<and> fetch source = Inl e \<longrightarrow>
      loadJsonWithFallback fetch (pre @ source # post) = (pre @ [source], Inl e)) \<and>
   ((\<forall>p \<in> set sources. not_ok fetch p) \<longrightarrow>
      loadJsonWithFallback fetch sources = (sources, Inl (ErrorObject Unable_to_load_JSON)))"
  by (simp add: loadJsonWithFallback_not_ok_prefix loadJsonWithFallback_all_not_ok)

theorem loadJsonWithFallback_stops_at_first_settled_witness:
  "not_ok (first_then source_a not_found (found [example_Q1])) source_a \<and>
   loadJsonWithFallback (first_then source_a not_found (found [example_Q1])) [source_a, source_b] =
     ([source_a, source_b], Inr [example_Q1]) \<and>
   loadJsonWithFallback (first_then source_a not_found (rejected :: thrown + Question list Response))
       [source_a, source_b] =
     ([source_a, source_b], Inl (ErrorObject Failed_to_fetch)) \<and>
   loadJsonWithFallback (first_then source_a not_found (not_found :: thrown + Question list Response))
       [source_a, source_b] =
     ([source_a, source_b], Inl (ErrorObject Unable_to_load_JSON))"
proof -
  let ?ok = "first_then source_a not_found (found [example_Q1])"
  let ?rej = "first_then source_a not_found (rejected :: thrown + Question list Response)"
  let ?none = "first_then source_a not_found (not_found :: thrown + Question list Response)"
  have a: "\<forall>p \<in> set [source_a]. not_ok ?ok p" "\<forall>p \<in> set [source_a]. not_ok ?rej p"
    "\<forall>p \<in> set [source_a, source_b]. not_ok ?none p"
    by (simp_all add: first_then_def found_def not_found_def not_json_def rejected_def source_a_def
        source_b_def succeeds_def not_ok_def)
  have b: "?ok source_b = Inr \<lparr>ok = True, json = Inr [example_Q1]\<rparr>"
    "?rej source_b = Inl (ErrorObject Failed_to_fetch)"
    by (simp_all add: first_then_def found_def not_found_def not_json_def rejected_def source_a_def
        source_b_def succeeds_def not_ok_def)
  have "loadJsonWithFallback ?ok ([source_a] @ source_b # []) =
      ([source_a] @ [source_b], json \<lparr>ok = True, json = Inr [example_Q1]\<rparr>)"
    using loadJsonWithFallback_stops_at_first_settled
      [of "[source_a]" ?ok source_b "\<lparr>ok = True, json = Inr [example_Q1]\<rparr>" "[]"] a(1) b(1)
    by simp
  moreover have "loadJsonWithFallback ?rej ([source_a] @ source_b # []) =
      ([source_a] @ [source_b], Inl (ErrorObject Failed_to_fetch))"
    using loadJsonWithFallback_stops_at_first_settled
      [of "[source_a]" ?rej source_b _ "[]" "ErrorObject Failed_to_fetch"] a(2) b(2)
    by simp
  moreover have "loadJsonWithFallback ?none [source_a, source_b] =
      ([source_a, source_b], Inl (ErrorObject Unable_to_load_JSON))"
    using loadJsonWithFallback_stops_at_first_settled
      [of _ ?none _ _ _ _ "[source_a, source_b]"] a(3)
    by simp
  ultimately show ?thesis
    using a(1) by simp
qed

text \<open>
  C1 as stated fails: in the first network the second candidate's response indicates
  success, yet the operation fails at the first candidate, whose fetch is rejected, and the
  second is never fetched; in the second network the first candidate's response indicates
  success and the operation fails, because its body is not JSON.
\<close>

theorem loadJsonWithFallback_fails_despite_success:
  "succeeds (first_then source_a rejected (found [example_Q1])) source_b \<and>
   loadJsonWithFallback (first_then source_a rejected (found [example_Q1])) [source_a, source_b] =
     ([source_a], Inl (ErrorObject Failed_to_fetch)) \<and>
   succeeds (first_then source_a not_json (found [example_Q1])) source_a \<and>
   loadJsonWithFallback (first_then source_a not_json (found [example_Q1])) [source_a, source_b] =
     ([source_a], Inl (ErrorObject Unexpected_token))"
  by (simp add: first_then_def found_def not_found_def not_json_def rejected_def source_a_def
        source_b_def succeeds_def not_ok_def)

section \<open>The claims about the session\<close>

text \<open>
  C3. In both parts, for every position \<open>k\<close> and whatever the selection was: if
  \<open>k + 1 < total\<close>, \<open>handleNext\<close> sets the position to \<open>k + 1\<close> and clears the selection; if
  \<open>k + 1 \<ge> total\<close>, it sets the position to \<open>total\<close> and clears the selection, which in a
  ready session is the finished state. The questions and the load state stay as they are.
\<close>

theorem handleNext_advances_or_finishes:
  "(currentIndex s + 1 < total s \<longrightarrow>
      currentIndex (handleNext_000 s) = currentIndex s + 1 \<and>
      selectedIndex (handleNext_000 s) = None) \<and>
   (currentIndex s + 1 \<ge> total s \<longrightarrow>
      currentIndex (handleNext_000 s) = total s \<and>
      selectedIndex (handleNext_000 s) = None \<and>
      (state s = ready \<longrightarrow> isFinished (handleNext_000 s))) \<and>
   questions (handleNext_000 s) = questions s \<and>
   state (handleNext_000 s) = state s \<and>
   (currentIndex t + 1 < total t \<longrightarrow>
      currentIndex (handleNext_001 t) = currentIndex t + 1 \<and>
      selectedIndex (handleNext_001 t) = None) \<and>
   (currentIndex t + 1 \<ge> total t \<longrightarrow>
      currentIndex (handleNext_001 t) = total t \<and>
      selectedIndex (handleNext_001 t) = None \<and>
      (state t = ready \<longrightarrow> isFinished (handleNext_001 t))) \<and>
   questions (handleNext_001 t) = questions t \<and>
   state (handleNext_001 t) = state t"
  by (simp add: handleNext_000_def handleNext_001_def total_def answered_def isFinished_def currentQuestion_def presenting_def
        item_at_def)

theorem handleNext_advances_or_finishes_witness:
  "presenting example_session_000 \<and> presenting example_session_001 \<and>
   selectedIndex example_session_000 = Some 2 \<and> selectedIndex example_session_001 = Some 2 \<and>
   currentIndex example_session_000 + 1 < total example_session_000 \<and>
   currentIndex example_session_001 + 1 < total example_session_001 \<and>
   currentIndex (handleNext_000 example_session_000) = 1 \<and>
   selectedIndex (handleNext_000 example_session_000) = None \<and>
   currentIndex (handleNext_001 example_session_001) = 1 \<and>
   selectedIndex (handleNext_001 example_session_001) = None \<and>
   currentIndex (handleNext_000 (handleNext_000 example_session_000)) = 2 \<and>
   isFinished (handleNext_000 (handleNext_000 example_session_000)) \<and>
   currentIndex (handleNext_001 (handleNext_001 example_session_001)) = 2 \<and>
   isFinished (handleNext_001 (handleNext_001 example_session_001))"
proof -
  have start: "presenting example_session_000" "presenting example_session_001"
    "selectedIndex example_session_000 = Some 2" "selectedIndex example_session_001 = Some 2"
    "currentIndex example_session_000 = 0" "currentIndex example_session_001 = 0"
    "total example_session_000 = 2" "total example_session_001 = 2"
    "state example_session_000 = ready" "state example_session_001 = ready"
    by (simp_all add: example_session_000_def example_session_001_def total_def answered_def isFinished_def currentQuestion_def presenting_def
        item_at_def)
  have first: "currentIndex (handleNext_000 example_session_000) = 1"
    "selectedIndex (handleNext_000 example_session_000) = None"
    "currentIndex (handleNext_001 example_session_001) = 1"
    "selectedIndex (handleNext_001 example_session_001) = None"
    "total (handleNext_000 example_session_000) = 2"
    "total (handleNext_001 example_session_001) = 2"
    "state (handleNext_000 example_session_000) = ready"
    "state (handleNext_001 example_session_001) = ready"
    using handleNext_advances_or_finishes [of example_session_000 example_session_001] start
    by (simp_all add: total_def)
  have second: "currentIndex (handleNext_000 (handleNext_000 example_session_000)) = 2"
    "isFinished (handleNext_000 (handleNext_000 example_session_000))"
    "currentIndex (handleNext_001 (handleNext_001 example_session_001)) = 2"
    "isFinished (handleNext_001 (handleNext_001 example_session_001))"
    using handleNext_advances_or_finishes
      [of "handleNext_000 example_session_000" "handleNext_001 example_session_001"] first
    by simp_all
  show ?thesis
    using start first second by simp
qed

text \<open>
  C6. In both parts \<open>handleOptionClick\<close> records the selection when there is no selection
  and there is a current question, and otherwise leaves the state as it is (in part 000 it
  then takes no draw either); so a second click at the same position leaves the selection
  at its first value, and a click with no current question changes nothing.
\<close>

theorem handleOptionClick_first_selection_wins:
  "(\<not> answered t \<and> currentQuestion t \<noteq> None \<longrightarrow>
      handleOptionClick_001 i t = t\<lparr>selectedIndex := Some i\<rparr>) \<and>
   (answered t \<or> currentQuestion t = None \<longrightarrow> handleOptionClick_001 i t = t) \<and>
   handleOptionClick_001 j (handleOptionClick_001 i t) = handleOptionClick_001 i t \<and>
   (\<not> answered s \<and> currentQuestion s \<noteq> None \<longrightarrow>
      selectedIndex (fst (handleOptionClick_000 i s g)) = Some i \<and>
      fst (handleOptionClick_000 i s g) =
        s\<lparr>selectedIndex := Some i,
          answerFooterImage := answerFooterImage (fst (handleOptionClick_000 i s g))\<rparr>) \<and>
   (answered s \<or> currentQuestion s = None \<longrightarrow> handleOptionClick_000 i s g = (s, g)) \<and>
   handleOptionClick_000 j (fst (handleOptionClick_000 i s g)) (snd (handleOptionClick_000 i s g)) =
     handleOptionClick_000 i s g"
  by (simp add: handleOptionClick_000_def handleOptionClick_001_def total_def answered_def isFinished_def currentQuestion_def presenting_def
        item_at_def case_prod_beta)

theorem handleOptionClick_first_selection_wins_witness:
  "selectedIndex example_unanswered_001 = None \<and>
   selectedIndex (handleOptionClick_001 1 example_unanswered_001) = Some 1 \<and>
   selectedIndex (handleOptionClick_001 3 (handleOptionClick_001 1 example_unanswered_001)) = Some 1 \<and>
   handleOptionClick_001 1 example_finished_001 = example_finished_001 \<and>
   selectedIndex example_unanswered_000 = None \<and>
   selectedIndex (fst (handleOptionClick_000 1 example_unanswered_000 example_draws)) = Some 1 \<and>
   handleOptionClick_000 3 (fst (handleOptionClick_000 1 example_unanswered_000 example_draws))
       (snd (handleOptionClick_000 1 example_unanswered_000 example_draws)) =
     handleOptionClick_000 1 example_unanswered_000 example_draws \<and>
   handleOptionClick_000 1 example_finished_000 example_draws =
     (example_finished_000, example_draws)"
proof -
  have open_: "\<not> answered example_unanswered_001" "currentQuestion example_unanswered_001 \<noteq> None"
    "\<not> answered example_unanswered_000" "currentQuestion example_unanswered_000 \<noteq> None"
    "selectedIndex example_unanswered_001 = None" "selectedIndex example_unanswered_000 = None"
    by (simp_all add: example_unanswered_000_def example_unanswered_001_def
        example_session_000_def example_session_001_def total_def answered_def isFinished_def currentQuestion_def presenting_def
        item_at_def)
  have closed: "currentQuestion example_finished_001 = None"
    "currentQuestion example_finished_000 = None"
    by (simp_all add: example_finished_000_def example_finished_001_def
        example_session_000_def example_session_001_def total_def answered_def isFinished_def currentQuestion_def presenting_def
        item_at_def)
  note click = handleOptionClick_first_selection_wins
    [of example_unanswered_001 1 3 example_unanswered_000 example_draws]
  note ended = handleOptionClick_first_selection_wins
    [of example_finished_001 1 3 example_finished_000 example_draws]
  have "handleOptionClick_001 1 example_unanswered_001 =
      example_unanswered_001\<lparr>selectedIndex := Some 1\<rparr>"
    using click open_ by blast
  moreover have "handleOptionClick_001 3 (handleOptionClick_001 1 example_unanswered_001) =
      handleOptionClick_001 1 example_unanswered_001"
    using click by blast
  moreover have "selectedIndex (fst (handleOptionClick_000 1 example_unanswered_000 example_draws)) =
      Some 1"
    using click open_ by blast
  moreover have
    "handleOptionClick_000 3 (fst (handleOptionClick_000 1 example_unanswered_000 example_draws))
       (snd (handleOptionClick_000 1 example_unanswered_000 example_draws)) =
     handleOptionClick_000 1 example_unanswered_000 example_draws"
    using click by blast
  moreover have "handleOptionClick_001 1 example_finished_001 = example_finished_001"
    "handleOptionClick_000 1 example_finished_000 example_draws =
       (example_finished_000, example_draws)"
    using ended closed by blast+
  ultimately show ?thesis
    using open_ by simp
qed

text \<open>
  C5, as the code has it. For every generator within the contract of \<^verbatim>\<open>Math.random\<close>,
  \<open>handleRestart\<close> replaces the question list with a permutation of itself (it takes no
  network, so nothing is fetched), sets the position to 0 and clears the selection; the
  background pool and the load state stay as they are, and from a finished session with at
  least one question the result is presenting. Part 001, which keeps a background for each question, draws that
  assignment anew from the pool it has: one entry for each question, \<^verbatim>\<open>null\<close> only when
  the pool is empty and an element of the pool otherwise. Part 000, which keeps only the
  background drawn at the answer, clears it.
\<close>

theorem handleRestart_reshuffles_and_resets:
  assumes "unit_draws g"
  shows "mset (questions (fst (handleRestart_001 t g))) = mset (questions t) \<and>
         currentIndex (fst (handleRestart_001 t g)) = 0 \<and>
         selectedIndex (fst (handleRestart_001 t g)) = None \<and>
         backgrounds (fst (handleRestart_001 t g)) = backgrounds t \<and>
         state (fst (handleRestart_001 t g)) = state t \<and>
         backgroundMap (fst (handleRestart_001 t g)) =
           fst (createBackgroundMap (length (questions t)) (backgrounds t)
                  (snd (shuffle (questions t) g))) \<and>
         length (backgroundMap (fst (handleRestart_001 t g))) =
           length (questions (fst (handleRestart_001 t g))) \<and>
         (\<forall>x \<in> set (backgroundMap (fst (handleRestart_001 t g))).
            case x of None \<Rightarrow> backgrounds t = [] | Some b \<Rightarrow> b \<in> set (backgrounds t)) \<and>
         (isFinished t \<and> questions t \<noteq> [] \<longrightarrow> presenting (fst (handleRestart_001 t g))) \<and>
         mset (questions (fst (handleRestart_000 s g))) = mset (questions s) \<and>
         currentIndex (fst (handleRestart_000 s g)) = 0 \<and>
         selectedIndex (fst (handleRestart_000 s g)) = None \<and>
         answerFooterImage (fst (handleRestart_000 s g)) = None \<and>
         backgrounds (fst (handleRestart_000 s g)) = backgrounds s \<and>
         state (fst (handleRestart_000 s g)) = state s \<and>
         (isFinished s \<and> questions s \<noteq> [] \<longrightarrow> presenting (fst (handleRestart_000 s g)))"
proof -
  have entries: "\<forall>x \<in> set (fst (createBackgroundMap (length (questions t)) (backgrounds t)
      (snd (shuffle (questions t) g)))).
      case x of None \<Rightarrow> backgrounds t = [] | Some b \<Rightarrow> b \<in> set (backgrounds t)"
    by (rule createBackgroundMap_entries) (rule unit_draws_shuffle [OF assms])
  have present_001: "isFinished t \<and> questions t \<noteq> [] \<longrightarrow> presenting (fst (handleRestart_001 t g))"
    by (simp add: total_def answered_def isFinished_def currentQuestion_def presenting_def
        item_at_def handleRestart_001_fields length_shuffle)
  have present_000: "isFinished s \<and> questions s \<noteq> [] \<longrightarrow> presenting (fst (handleRestart_000 s g))"
    by (simp add: total_def answered_def isFinished_def currentQuestion_def presenting_def
        item_at_def handleRestart_000_fields length_shuffle)
  show ?thesis
    using entries present_001 present_000
    by (simp add: handleRestart_001_fields handleRestart_000_fields mset_shuffle [OF assms]
        length_shuffle length_createBackgroundMap)
qed

theorem handleRestart_reshuffles_and_resets_witness:
  "unit_draws example_draws_tail \<and>
   isFinished example_finished_001 \<and> isFinished example_finished_000 \<and>
   questions example_finished_001 = [example_Q1, example_Q2] \<and>
   questions (fst (handleRestart_001 example_finished_001 example_draws_tail)) =
     [example_Q2, example_Q1] \<and>
   backgroundMap (fst (handleRestart_001 example_finished_001 example_draws_tail)) =
     [Some (example_pool ! 1), Some (example_pool ! 1)] \<and>
   currentIndex (fst (handleRestart_001 example_finished_001 example_draws_tail)) = 0 \<and>
   selectedIndex (fst (handleRestart_001 example_finished_001 example_draws_tail)) = None \<and>
   presenting (fst (handleRestart_001 example_finished_001 example_draws_tail)) \<and>
   questions (fst (handleRestart_000 example_finished_000 example_draws_tail)) =
     [example_Q2, example_Q1] \<and>
   currentIndex (fst (handleRestart_000 example_finished_000 example_draws_tail)) = 0 \<and>
   selectedIndex (fst (handleRestart_000 example_finished_000 example_draws_tail)) = None \<and>
   presenting (fst (handleRestart_000 example_finished_000 example_draws_tail))"
proof -
  have draws: "unit_draws example_draws_tail"
    by (simp add: unit_draws_def example_draws_tail_def example_draws_def)
  have finished: "isFinished example_finished_001" "isFinished example_finished_000"
    "questions example_finished_001 = [example_Q1, example_Q2]"
    "questions example_finished_001 \<noteq> []" "questions example_finished_000 \<noteq> []"
    by (simp_all add: example_finished_000_def example_finished_001_def
        example_session_000_def example_session_001_def total_def answered_def isFinished_def currentQuestion_def presenting_def
        item_at_def)
  have run: "questions (fst (handleRestart_001 example_finished_001 example_draws_tail)) =
      [example_Q2, example_Q1]"
    "backgroundMap (fst (handleRestart_001 example_finished_001 example_draws_tail)) =
      [Some (example_pool ! 1), Some (example_pool ! 1)]"
    "questions (fst (handleRestart_000 example_finished_000 example_draws_tail)) =
      [example_Q2, example_Q1]"
    by code_simp+
  note restart = handleRestart_reshuffles_and_resets
    [OF draws, of example_finished_001 example_finished_000]
  have "currentIndex (fst (handleRestart_001 example_finished_001 example_draws_tail)) = 0"
    "selectedIndex (fst (handleRestart_001 example_finished_001 example_draws_tail)) = None"
    "presenting (fst (handleRestart_001 example_finished_001 example_draws_tail))"
    "currentIndex (fst (handleRestart_000 example_finished_000 example_draws_tail)) = 0"
    "selectedIndex (fst (handleRestart_000 example_finished_000 example_draws_tail)) = None"
    "presenting (fst (handleRestart_000 example_finished_000 example_draws_tail))"
    using restart finished by blast+
  then show ?thesis
    using draws finished run by simp
qed

text \<open>
  C5 as stated fails in part 000, whose restart draws no background: after the restart of
  the finished example session, whose pool is not empty, no background is assigned, and the
  generator is the one the shuffle left behind.
\<close>

theorem handleRestart_000_draws_no_background:
  "isFinished example_finished_000 \<and>
   backgrounds example_finished_000 = example_pool \<and>
   example_pool \<noteq> [] \<and>
   answerFooterImage (fst (handleRestart_000 example_finished_000 example_draws_tail)) = None \<and>
   snd (handleRestart_000 example_finished_000 example_draws_tail) =
     snd (shuffle (questions example_finished_000) example_draws_tail)"
  by (simp add: handleRestart_000_def case_prod_beta example_finished_000_def
      example_session_000_def example_pool_def isFinished_def total_def)

text \<open>
  C7. In both parts, after the load the session that was loading is ready and presenting
  exactly when the question resource loaded and the normaliser yielded at least one
  question; otherwise it is in the error state: with the "no valid questions" message when
  the normaliser yielded none, and with the message of the failure when the question
  resource failed to load. The message of the loader's own failure, "Unable to load JSON",
  and the message used for a thrown value that is not an \<^verbatim>\<open>Error\<close> both differ from the
  "no valid questions" message; the message of a failure is the "no valid questions" message
  only for a thrown \<^verbatim>\<open>Error\<close> that carries that very sentence.
\<close>

theorem load_reaches_ready_or_error:
  "state initial_000 = loading \<and> state initial_001 = loading \<and>
   spec_after_load (snd (loadJsonWithFallback fetchQ QUESTION_SOURCES_000))
     (fst (load_000 fetchQ fetchB initial_000 g)) \<and>
   spec_after_load (snd (loadJsonWithFallback fetchQ QUESTION_SOURCES_001))
     (fst (load_001 fetchQ fetchB initial_001 g)) \<and>
   (state (fst (load_000 fetchQ fetchB initial_000 g)) = ready) =
     (case snd (loadJsonWithFallback fetchQ QUESTION_SOURCES_000) of
        Inl e \<Rightarrow> False | Inr raw \<Rightarrow> normalizeQuestions raw \<noteq> []) \<and>
   (state (fst (load_001 fetchQ fetchB initial_001 g)) = ready) =
     (case snd (loadJsonWithFallback fetchQ QUESTION_SOURCES_001) of
        Inl e \<Rightarrow> False | Inr raw \<Rightarrow> normalizeQuestions raw \<noteq> []) \<and>
   caughtMessage (ErrorObject Unable_to_load_JSON) \<noteq> no_valid_questions_message \<and>
   caughtMessage OtherValue \<noteq> no_valid_questions_message \<and>
   (caughtMessage e = no_valid_questions_message) = (e = ErrorObject no_valid_questions_message)"
proof -
  have only: "(caughtMessage e = no_valid_questions_message) =
      (e = ErrorObject no_valid_questions_message)"
    using messages_distinct(2) by (cases e) (simp_all add: caughtMessage_def)
  have start: "state initial_000 = loading" "state initial_001 = loading"
    by (simp_all add: initial_000_def initial_001_def)
  have ready_000: "(state (fst (load_000 fetchQ fetchB initial_000 g)) = ready) =
     (case snd (loadJsonWithFallback fetchQ QUESTION_SOURCES_000) of
        Inl e \<Rightarrow> False | Inr raw \<Rightarrow> normalizeQuestions raw \<noteq> [])"
    by (simp add: state_load_000 split: sum.split)
  have ready_001: "(state (fst (load_001 fetchQ fetchB initial_001 g)) = ready) =
     (case snd (loadJsonWithFallback fetchQ QUESTION_SOURCES_001) of
        Inl e \<Rightarrow> False | Inr raw \<Rightarrow> normalizeQuestions raw \<noteq> [])"
    by (simp add: state_load_001 split: sum.split)
  show ?thesis
    using start ready_000 ready_001 messages_distinct only
      load_000_spec [of fetchQ fetchB g] load_001_spec [of fetchQ fetchB g]
    by blast
qed

theorem load_reaches_ready_or_error_witness:
  "presenting (fst (load_000 relocated_questions_000 pool_network initial_000 example_draws)) \<and>
   questions (fst (load_000 relocated_questions_000 pool_network initial_000 example_draws)) =
     [example_Q1] \<and>
   presenting (fst (load_001 relocated_questions_001 pool_network initial_001 example_draws)) \<and>
   questions (fst (load_001 relocated_questions_001 pool_network initial_001 example_draws)) =
     [example_Q1] \<and>
   state (fst (load_000 no_questions pool_network initial_000 example_draws)) = error \<and>
   errorMessage (fst (load_000 no_questions pool_network initial_000 example_draws)) =
     no_valid_questions_message \<and>
   state (fst (load_001 no_questions pool_network initial_001 example_draws)) = error \<and>
   errorMessage (fst (load_001 no_questions pool_network initial_001 example_draws)) =
     no_valid_questions_message \<and>
   state (fst (load_000 questions_unreachable pool_network initial_000 example_draws)) = error \<and>
   errorMessage (fst (load_000 questions_unreachable pool_network initial_000 example_draws)) =
     Unable_to_load_JSON \<and>
   state (fst (load_001 questions_unreachable pool_network initial_001 example_draws)) = error \<and>
   errorMessage (fst (load_001 questions_unreachable pool_network initial_001 example_draws)) =
     Unable_to_load_JSON"
proof -
  have outcomes:
    "snd (loadJsonWithFallback relocated_questions_000 QUESTION_SOURCES_000) =
       Inr [example_blank_prompt, example_Q1]"
    "snd (loadJsonWithFallback relocated_questions_001 QUESTION_SOURCES_001) =
       Inr [example_blank_prompt, example_Q1]"
    "snd (loadJsonWithFallback no_questions QUESTION_SOURCES_000) = Inr []"
    "snd (loadJsonWithFallback no_questions QUESTION_SOURCES_001) = Inr []"
    "snd (loadJsonWithFallback questions_unreachable QUESTION_SOURCES_000) =
       Inl (ErrorObject Unable_to_load_JSON)"
    "snd (loadJsonWithFallback questions_unreachable QUESTION_SOURCES_001) =
       Inl (ErrorObject Unable_to_load_JSON)"
    by (simp_all add: relocated_questions_000_def relocated_questions_001_def no_questions_def
        questions_unreachable_def QUESTION_SOURCES_000_def QUESTION_SOURCES_001_def
        first_then_def found_def not_found_def)
  have normalized: "normalizeQuestions [example_blank_prompt, example_Q1] = [example_Q1]"
    "normalizeQuestions [] = []"
    by (simp_all add: normalizeQuestions_def normalizeEntry_def normalizeOption_def keepEntry_def
        trimOrEmpty_def example_blank_options_def example_three_options_def example_no_options_def
        example_blank_prompt_def example_Q1_def example_Q2_def four_options_def trim_def isWhiteSpace_def)
  have shown:
    "questions (fst (load_000 relocated_questions_000 pool_network initial_000 example_draws)) =
       [example_Q1]"
    "questions (fst (load_001 relocated_questions_001 pool_network initial_001 example_draws)) =
       [example_Q1]"
    by (simp_all add: load_000_def load_001_def outcomes normalized shuffle_def case_prod_beta
        Let_def)
  note relocated = load_reaches_ready_or_error
    [of relocated_questions_000 pool_network example_draws]
    load_reaches_ready_or_error [of relocated_questions_001 pool_network example_draws]
  note none = load_reaches_ready_or_error [of no_questions pool_network example_draws]
  note unreachable = load_reaches_ready_or_error
    [of questions_unreachable pool_network example_draws]
  have "presenting (fst (load_000 relocated_questions_000 pool_network initial_000 example_draws))"
    "presenting (fst (load_001 relocated_questions_001 pool_network initial_001 example_draws))"
    using relocated by (simp_all add: spec_after_load_def outcomes normalized)
  moreover have
    "state (fst (load_000 no_questions pool_network initial_000 example_draws)) = error"
    "errorMessage (fst (load_000 no_questions pool_network initial_000 example_draws)) =
       no_valid_questions_message"
    "state (fst (load_001 no_questions pool_network initial_001 example_draws)) = error"
    "errorMessage (fst (load_001 no_questions pool_network initial_001 example_draws)) =
       no_valid_questions_message"
    using none by (simp_all add: spec_after_load_def outcomes normalized)
  moreover have
    "state (fst (load_000 questions_unreachable pool_network initial_000 example_draws)) = error"
    "errorMessage (fst (load_000 questions_unreachable pool_network initial_000 example_draws)) =
       Unable_to_load_JSON"
    "state (fst (load_001 questions_unreachable pool_network initial_001 example_draws)) = error"
    "errorMessage (fst (load_001 questions_unreachable pool_network initial_001 example_draws)) =
       Unable_to_load_JSON"
    using unreachable by (simp_all add: spec_after_load_def outcomes caughtMessage_def)
  ultimately show ?thesis
    using shown by simp
qed

text \<open>
  C8. In both parts, when the load of the background resource fails, whatever the failure,
  the load of the session goes as it does on a network where that resource is the empty
  list: the background list of the session is empty, and the session is ready and
  presenting whenever the question resource loads with at least one valid question. In
  part 001 every entry of the background map is then \<^verbatim>\<open>null\<close>.
\<close>

theorem background_failure_absorbed:
  "(isl (snd (loadJsonWithFallback fetchB BACKGROUND_SOURCES_000)) \<longrightarrow>
      load_000 fetchQ fetchB s g = load_000 fetchQ empty_backgrounds_network s g \<and>
      backgrounds (fst (load_000 fetchQ fetchB initial_000 g)) = [] \<and>
      (case snd (loadJsonWithFallback fetchQ QUESTION_SOURCES_000) of
         Inl e \<Rightarrow> True
       | Inr raw \<Rightarrow>
           normalizeQuestions raw \<noteq> [] \<longrightarrow>
           presenting (fst (load_000 fetchQ fetchB initial_000 g)))) \<and>
   (isl (snd (loadJsonWithFallback fetchB BACKGROUND_SOURCES_001)) \<longrightarrow>
      load_001 fetchQ fetchB t g = load_001 fetchQ empty_backgrounds_network t g \<and>
      backgrounds (fst (load_001 fetchQ fetchB initial_001 g)) = [] \<and>
      (\<forall>x \<in> set (backgroundMap (fst (load_001 fetchQ fetchB initial_001 g))). x = None) \<and>
      (case snd (loadJsonWithFallback fetchQ QUESTION_SOURCES_001) of
         Inl e \<Rightarrow> True
       | Inr raw \<Rightarrow>
           normalizeQuestions raw \<noteq> [] \<longrightarrow>
           presenting (fst (load_001 fetchQ fetchB initial_001 g))))"
proof -
  have same_000: "load_000 fetchQ fetchB s g = load_000 fetchQ empty_backgrounds_network s g"
    if "isl (snd (loadJsonWithFallback fetchB BACKGROUND_SOURCES_000))"
    by (rule load_000_backgrounds_absorbed [OF that])
  have same_001: "load_001 fetchQ fetchB t g = load_001 fetchQ empty_backgrounds_network t g"
    if "isl (snd (loadJsonWithFallback fetchB BACKGROUND_SOURCES_001))"
    by (rule load_001_backgrounds_absorbed [OF that])
  have part_000: "backgrounds (fst (load_000 fetchQ fetchB initial_000 g)) = []"
    if "isl (snd (loadJsonWithFallback fetchB BACKGROUND_SOURCES_000))"
    using loadBackgrounds_failure [OF that]
    by (simp add: load_000_backgrounds split: sum.split)
  have part_001: "backgrounds (fst (load_001 fetchQ fetchB initial_001 g)) = []"
    "\<forall>x \<in> set (backgroundMap (fst (load_001 fetchQ fetchB initial_001 g))). x = None"
    if "isl (snd (loadJsonWithFallback fetchB BACKGROUND_SOURCES_001))"
    using loadBackgrounds_failure [OF that]
    by (cases "snd (loadJsonWithFallback fetchQ QUESTION_SOURCES_001)";
        simp add: load_001_backgrounds load_001_backgroundMap createBackgroundMap_empty)+
  have ready_000: "case snd (loadJsonWithFallback fetchQ QUESTION_SOURCES_000) of
         Inl e \<Rightarrow> True
       | Inr raw \<Rightarrow>
           normalizeQuestions raw \<noteq> [] \<longrightarrow>
           presenting (fst (load_000 fetchQ fetchB initial_000 g))"
    using load_000_spec [of fetchQ fetchB g] by (simp add: spec_after_load_def split: sum.splits)
  have ready_001: "case snd (loadJsonWithFallback fetchQ QUESTION_SOURCES_001) of
         Inl e \<Rightarrow> True
       | Inr raw \<Rightarrow>
           normalizeQuestions raw \<noteq> [] \<longrightarrow>
           presenting (fst (load_001 fetchQ fetchB initial_001 g))"
    using load_001_spec [of fetchQ fetchB g] by (simp add: spec_after_load_def split: sum.splits)
  show ?thesis
    using same_000 same_001 part_000 part_001 ready_000 ready_001 by blast
qed

theorem background_failure_absorbed_witness:
  "isl (snd (loadJsonWithFallback backgrounds_unreachable BACKGROUND_SOURCES_000)) \<and>
   isl (snd (loadJsonWithFallback backgrounds_unreachable BACKGROUND_SOURCES_001)) \<and>
   backgrounds
     (fst (load_000 relocated_questions_000 backgrounds_unreachable initial_000 example_draws)) = [] \<and>
   presenting
     (fst (load_000 relocated_questions_000 backgrounds_unreachable initial_000 example_draws)) \<and>
   backgrounds
     (fst (load_001 relocated_questions_001 backgrounds_unreachable initial_001 example_draws)) = [] \<and>
   backgroundMap
     (fst (load_001 relocated_questions_001 backgrounds_unreachable initial_001 example_draws)) =
     [None] \<and>
   presenting
     (fst (load_001 relocated_questions_001 backgrounds_unreachable initial_001 example_draws))"
proof -
  have failed: "isl (snd (loadJsonWithFallback backgrounds_unreachable BACKGROUND_SOURCES_000))"
    "isl (snd (loadJsonWithFallback backgrounds_unreachable BACKGROUND_SOURCES_001))"
    by (simp_all add: backgrounds_unreachable_def rejected_def BACKGROUND_SOURCES_000_def
        BACKGROUND_SOURCES_001_def)
  have outcomes:
    "snd (loadJsonWithFallback relocated_questions_000 QUESTION_SOURCES_000) =
       Inr [example_blank_prompt, example_Q1]"
    "snd (loadJsonWithFallback relocated_questions_001 QUESTION_SOURCES_001) =
       Inr [example_blank_prompt, example_Q1]"
    by (simp_all add: relocated_questions_000_def relocated_questions_001_def
        QUESTION_SOURCES_000_def QUESTION_SOURCES_001_def first_then_def found_def not_found_def)
  have normalized: "normalizeQuestions [example_blank_prompt, example_Q1] = [example_Q1]"
    by (simp add: normalizeQuestions_def normalizeEntry_def normalizeOption_def keepEntry_def
        trimOrEmpty_def example_blank_options_def example_three_options_def example_no_options_def
        example_blank_prompt_def example_Q1_def example_Q2_def four_options_def trim_def isWhiteSpace_def)
  note absorbed = background_failure_absorbed
    [of backgrounds_unreachable relocated_questions_000 initial_000 example_draws initial_001]
    background_failure_absorbed
    [of backgrounds_unreachable relocated_questions_001 initial_000 example_draws initial_001]
  have bmap: "backgroundMap
     (fst (load_001 relocated_questions_001 backgrounds_unreachable initial_001 example_draws)) =
     [None]"
    using failed(2)
    by (simp add: load_001_backgroundMap outcomes normalized loadBackgrounds_failure
        createBackgroundMap_empty)
  have part_000: "backgrounds
     (fst (load_000 relocated_questions_000 backgrounds_unreachable initial_000 example_draws)) = []"
    "case snd (loadJsonWithFallback relocated_questions_000 QUESTION_SOURCES_000) of
       Inl e \<Rightarrow> True
     | Inr raw \<Rightarrow>
         normalizeQuestions raw \<noteq> [] \<longrightarrow>
         presenting (fst (load_000 relocated_questions_000 backgrounds_unreachable initial_000
           example_draws))"
    using absorbed(1) failed(1) by blast+
  have part_001: "backgrounds
     (fst (load_001 relocated_questions_001 backgrounds_unreachable initial_001 example_draws)) = []"
    "case snd (loadJsonWithFallback relocated_questions_001 QUESTION_SOURCES_001) of
       Inl e \<Rightarrow> True
     | Inr raw \<Rightarrow>
         normalizeQuestions raw \<noteq> [] \<longrightarrow>
         presenting (fst (load_001 relocated_questions_001 backgrounds_unreachable initial_001
           example_draws))"
    using absorbed(2) failed(2) by blast+
  have "presenting
     (fst (load_000 relocated_questions_000 backgrounds_unreachable initial_000 example_draws))"
    using part_000(2) by (simp add: outcomes normalized)
  moreover have "presenting
     (fst (load_001 relocated_questions_001 backgrounds_unreachable initial_001 example_draws))"
    using part_001(2) by (simp add: outcomes normalized)
  ultimately show ?thesis
    using failed bmap part_000(1) part_001(1) by simp
qed

end
